theory Spec2Isabelle
  imports Complex_Main "HOL-Library.AList"
begin

section \<open>Values and time\<close>

text \<open>
  A Python \<open>float\<close>: a finite double is the rational number it denotes; the three special
  values are kept apart because every ordered comparison with \<open>NaN\<close> is false.  Rounding of
  arithmetic results to the nearest double is not modelled: sums and quotients of finite
  values are exact.
\<close>

datatype pyfloat = Fin rat | PosInf | NegInf | NaN

text \<open>The values a decoded JSON document is made of; a reading is the content of a \<open>JDict\<close>.\<close>

datatype json =
    JNone
  | JBool bool
  | JInt int
  | JFloat pyfloat
  | JStr string
  | JList "json list"
  | JDict "(string \<times> json) list"

type_synonym reading = "(string \<times> json) list"

text \<open>
  A naive \<open>datetime\<close> is the number of microseconds since 2025-01-01 00:00:00, a
  \<open>timedelta\<close> a number of microseconds.
\<close>

type_synonym instant = int

definition seconds :: "int \<Rightarrow> int" where
  "seconds s = s * 1000000"

definition minutes :: "int \<Rightarrow> int" where
  "minutes m = seconds (60 * m)"

definition hours :: "int \<Rightarrow> int" where
  "hours h = seconds (3600 * h)"

text \<open>
  The first and the last instant of Python's calendar: 0001-01-01 00:00:00, 739251 days
  before the origin, and 9999-12-31 23:59:59.999999, one microsecond before the end of the
  2912808th day from it.
\<close>

definition DATETIME_MIN :: instant where
  "DATETIME_MIN = - hours 24 * 739251"

definition DATETIME_MAX :: instant where
  "DATETIME_MAX = hours 24 * 2912808 - 1"

section \<open>Python primitives\<close>

text \<open>The exceptions the modelled code can meet; a raise is the value \<open>Inl e\<close>.\<close>

datatype error =
  ValueError | TypeError | OverflowError | KeyError | AttributeError | ZeroDivisionError
  | IndexError

definition ebind :: "error + 'a \<Rightarrow> ('a \<Rightarrow> error + 'b) \<Rightarrow> error + 'b" where
  "ebind m f = (case m of Inl e \<Rightarrow> Inl e | Inr x \<Rightarrow> f x)"

text \<open>
  The builtin \<open>float(v)\<close>.  What it makes of a string is the parameter \<open>sf\<close> (\<open>None\<close>: the
  string is not a number and \<open>ValueError\<close> is raised).  An integer that rounds to a
  magnitude of \<open>2^1024\<close> or more raises \<open>OverflowError\<close>.
\<close>

definition py_float :: "(string \<Rightarrow> pyfloat option) \<Rightarrow> json \<Rightarrow> error + pyfloat" where
  "py_float sf v =
     (case v of
        JNone \<Rightarrow> Inl TypeError
      | JBool b \<Rightarrow> Inr (Fin (if b then 1 else 0))
      | JInt i \<Rightarrow> (if \<bar>i\<bar> \<ge> 2 ^ 1024 - 2 ^ 970 then Inl OverflowError else Inr (Fin (of_int i)))
      | JFloat x \<Rightarrow> Inr x
      | JStr t \<Rightarrow> (case sf t of None \<Rightarrow> Inl ValueError | Some x \<Rightarrow> Inr x)
      | JList xs \<Rightarrow> Inl TypeError
      | JDict d \<Rightarrow> Inl TypeError)"

text \<open>Ordered comparison of floats: false whenever an operand is \<open>NaN\<close>.\<close>

fun fle :: "pyfloat \<Rightarrow> pyfloat \<Rightarrow> bool" where
  "fle NaN _ = False"
| "fle _ NaN = False"
| "fle NegInf _ = True"
| "fle _ PosInf = True"
| "fle (Fin a) (Fin b) = (a \<le> b)"
| "fle (Fin a) NegInf = False"
| "fle PosInf (Fin b) = False"
| "fle PosInf NegInf = False"

fun flt :: "pyfloat \<Rightarrow> pyfloat \<Rightarrow> bool" where
  "flt NaN _ = False"
| "flt _ NaN = False"
| "flt (Fin a) (Fin b) = (a < b)"
| "flt NegInf NegInf = False"
| "flt NegInf _ = True"
| "flt PosInf _ = False"
| "flt (Fin a) PosInf = True"
| "flt (Fin a) NegInf = False"

definition fge :: "pyfloat \<Rightarrow> pyfloat \<Rightarrow> bool" where
  "fge a b = fle b a"

text \<open>Truth value of a Python object (\<open>if v:\<close>, \<open>a or b\<close>).\<close>

fun truthy :: "json \<Rightarrow> bool" where
  "truthy JNone = False"
| "truthy (JBool b) = b"
| "truthy (JInt i) = (i \<noteq> 0)"
| "truthy (JFloat x) = (x \<noteq> Fin 0)"
| "truthy (JStr t) = (t \<noteq> [])"
| "truthy (JList xs) = (xs \<noteq> [])"
| "truthy (JDict d) = (d \<noteq> [])"

fun starts_with :: "string \<Rightarrow> string \<Rightarrow> bool" where
  "starts_with [] _ = True"
| "starts_with (x # xs) [] = False"
| "starts_with (x # xs) (y # ys) = (x = y \<and> starts_with xs ys)"

fun str_contains :: "string \<Rightarrow> string \<Rightarrow> bool" where
  "str_contains n [] = (n = [])"
| "str_contains n (h # hs) = (starts_with n (h # hs) \<or> str_contains n hs)"

text \<open>\<open>key in obj\<close>, \<open>obj[key]\<close> and \<open>obj[key] = v\<close> for a string key.\<close>

definition py_contains :: "json \<Rightarrow> string \<Rightarrow> error + bool" where
  "py_contains obj k =
     (case obj of
        JDict d \<Rightarrow> Inr (map_of d k \<noteq> None)
      | JStr t \<Rightarrow> Inr (str_contains k t)
      | JList xs \<Rightarrow> Inr (JStr k \<in> set xs)
      | _ \<Rightarrow> Inl TypeError)"

definition py_getitem :: "json \<Rightarrow> string \<Rightarrow> error + json" where
  "py_getitem obj k =
     (case obj of
        JDict d \<Rightarrow> (case map_of d k of None \<Rightarrow> Inl KeyError | Some v \<Rightarrow> Inr v)
      | _ \<Rightarrow> Inl TypeError)"

text \<open>\<open>obj.get(key)\<close> and \<open>obj.get(key, default)\<close>: only a dict has the method.\<close>

definition py_get_default :: "json \<Rightarrow> string \<Rightarrow> json \<Rightarrow> error + json" where
  "py_get_default obj k dflt =
     (case obj of
        JDict d \<Rightarrow> Inr (case map_of d k of None \<Rightarrow> dflt | Some v \<Rightarrow> v)
      | _ \<Rightarrow> Inl AttributeError)"

definition py_get :: "json \<Rightarrow> string \<Rightarrow> error + json" where
  "py_get obj k = py_get_default obj k JNone"

text \<open>Float addition, and the quotient of a float by an integer.\<close>

fun fadd :: "pyfloat \<Rightarrow> pyfloat \<Rightarrow> pyfloat" where
  "fadd NaN _ = NaN"
| "fadd _ NaN = NaN"
| "fadd PosInf NegInf = NaN"
| "fadd NegInf PosInf = NaN"
| "fadd PosInf _ = PosInf"
| "fadd _ PosInf = PosInf"
| "fadd NegInf _ = NegInf"
| "fadd _ NegInf = NegInf"
| "fadd (Fin a) (Fin b) = Fin (a + b)"

definition fdiv_int :: "pyfloat \<Rightarrow> int \<Rightarrow> error + pyfloat" where
  "fdiv_int x n =
     (if n = 0 then Inl ZeroDivisionError
      else Inr (case x of
                  Fin a \<Rightarrow> Fin (a / of_int n)
                | PosInf \<Rightarrow> (if n > 0 then PosInf else NegInf)
                | NegInf \<Rightarrow> (if n > 0 then NegInf else PosInf)
                | NaN \<Rightarrow> NaN))"

definition py_setitem :: "json \<Rightarrow> string \<Rightarrow> json \<Rightarrow> error + json" where
  "py_setitem obj k v =
     (case obj of
        JDict d \<Rightarrow> Inr (JDict (AList.update k v d))
      | _ \<Rightarrow> Inl TypeError)"

section \<open>WeatherCache (services/weather\_service.py)\<close>

record WeatherCache =
  c_data :: "json list option"
  last_fetch :: "instant option"
  last_success :: "instant option"
  ttl :: int
  stale_ttl :: int
  fetch_errors :: int
  backoff_until :: "instant option"

text \<open>\<open>self._max_errors_before_backoff\<close> is set to 3 by the constructor and never assigned again.\<close>

definition max_errors_before_backoff :: int where
  "max_errors_before_backoff = 3"

definition WeatherCache_init :: "int \<Rightarrow> int \<Rightarrow> WeatherCache" where
  "WeatherCache_init ttl_seconds stale_ttl_seconds =
     \<lparr> c_data = None, last_fetch = None, last_success = None,
       ttl = seconds ttl_seconds, stale_ttl = seconds stale_ttl_seconds,
       fetch_errors = 0, backoff_until = None \<rparr>"

text \<open>
  Every operation reads the clock once; the instant it reads is the argument \<open>now\<close>.
  \<open>cache_get\<close> is \<open>WeatherCache.get\<close>: its second component is the truth value of
  \<open>is_fresh\<close>.
\<close>

definition cache_get :: "WeatherCache \<Rightarrow> instant \<Rightarrow> json list option \<times> bool \<times> instant option" where
  "cache_get c now =
     (case c_data c of
        None \<Rightarrow> (None, False, None)
      | Some d \<Rightarrow>
          (Some d,
           (case last_fetch c of None \<Rightarrow> False | Some lf \<Rightarrow> now - lf < ttl c),
           last_success c))"

definition cache_set :: "WeatherCache \<Rightarrow> instant \<Rightarrow> json list \<Rightarrow> bool \<Rightarrow> WeatherCache" where
  "cache_set c now d success =
     (let c1 = c\<lparr> c_data := Some d, last_fetch := Some now \<rparr>
      in if success \<and> d \<noteq> []
         then c1\<lparr> last_success := Some now, fetch_errors := 0, backoff_until := None \<rparr>
         else c1)"

definition record_error :: "WeatherCache \<Rightarrow> instant \<Rightarrow> WeatherCache" where
  "record_error c now =
     (let n = fetch_errors c + 1;
          c1 = c\<lparr> fetch_errors := n \<rparr>
      in if n \<ge> max_errors_before_backoff
         then (let backoff_seconds = min (60 * 2 ^ nat (n - max_errors_before_backoff)) 300
               in c1\<lparr> backoff_until := Some (now + seconds backoff_seconds) \<rparr>)
         else c1)"

definition should_fetch :: "WeatherCache \<Rightarrow> instant \<Rightarrow> bool" where
  "should_fetch c now =
     (if (case backoff_until c of None \<Rightarrow> False | Some b \<Rightarrow> now < b) then False
      else (case last_fetch c of
              None \<Rightarrow> True
            | Some lf \<Rightarrow> now - lf \<ge> ttl c))"

definition get_stale_data :: "WeatherCache \<Rightarrow> instant \<Rightarrow> json list option" where
  "get_stale_data c now =
     (case c_data c of
        None \<Rightarrow> None
      | Some d \<Rightarrow>
          (if (case last_success c of None \<Rightarrow> False | Some ls \<Rightarrow> now - ls < stale_ttl c)
           then Some d
           else Some d))"

section \<open>WeatherService (services/weather\_service.py)\<close>

definition float_fields :: "string list" where
  "float_fields = [''WaterLevel'', ''HourlyRain'', ''WindSpeed'', ''Temperature'',
                   ''Humidity'', ''Pressure'', ''HeatIndex'', ''DailyRain'']"

definition critical_fields :: "string list" where
  "critical_fields = [''WaterLevel'', ''HourlyRain'']"

text \<open>
  One round of the loop over \<open>float_fields\<close> in \<open>_sanitize_reading\<close>.  The handler catches
  \<open>ValueError\<close> and \<open>TypeError\<close> only.
\<close>

definition sanitize_field :: "(string \<Rightarrow> pyfloat option) \<Rightarrow> json \<Rightarrow> string \<Rightarrow> error + json" where
  "sanitize_field sf reading field =
     ebind (py_contains reading field) (\<lambda>present.
       if \<not> present then Inr reading
       else ebind (py_getitem reading field) (\<lambda>v.
         if v = JNone then Inr reading
         else (case py_float sf v of
                 Inr x \<Rightarrow> py_setitem reading field (JFloat x)
               | Inl e \<Rightarrow>
                   if e = ValueError \<or> e = TypeError
                   then (if field \<in> set critical_fields
                         then py_setitem reading field JNone
                         else py_setitem reading field (JFloat (Fin 0)))
                   else Inl e)))"

fun sanitize_fields :: "(string \<Rightarrow> pyfloat option) \<Rightarrow> json \<Rightarrow> string list \<Rightarrow> error + json" where
  "sanitize_fields sf reading [] = Inr reading"
| "sanitize_fields sf reading (f # fs) =
     ebind (sanitize_field sf reading f) (\<lambda>r. sanitize_fields sf r fs)"

text \<open>
  \<open>_sanitize_reading\<close>.  The parameter \<open>ssu\<close> is \<open>str(v).strip().upper()\<close> on the value of
  \<open>WindDirection\<close>.
\<close>

definition sanitize_reading ::
  "(string \<Rightarrow> pyfloat option) \<Rightarrow> (json \<Rightarrow> string) \<Rightarrow> json \<Rightarrow> error + json" where
  "sanitize_reading sf ssu reading =
     ebind (sanitize_fields sf reading float_fields) (\<lambda>r.
       ebind (py_contains r ''WindDirection'') (\<lambda>present.
         if \<not> present then Inr r
         else ebind (py_getitem r ''WindDirection'') (\<lambda>wind_dir.
           if wind_dir \<noteq> JNone then py_setitem r ''WindDirection'' (JStr (ssu wind_dir))
           else Inr r)))"

text \<open>No value of the listed fields makes \<open>float\<close> raise \<open>OverflowError\<close>.\<close>

definition no_overflow :: "(string \<Rightarrow> pyfloat option) \<Rightarrow> (string \<times> json) list \<Rightarrow> string list \<Rightarrow> bool" where
  "no_overflow sf d flds =
     (\<forall>f \<in> set flds. \<forall>v. map_of d f = Some v \<longrightarrow> py_float sf v \<noteq> Inl OverflowError)"

text \<open>
  What the HTTP request of \<open>_fetch_from_api\<close> can come to: \<open>requests\<close> raises \<open>Timeout\<close>,
  another \<open>RequestException\<close> in transport, \<open>HTTPError\<close> from \<open>raise_for_status\<close>, the body
  is not JSON (\<open>ValueError\<close>), or the body decodes to a JSON value.
\<close>

datatype upstream = Timeout | TransportError | HttpError | InvalidJson | Body json

fun sanitize_all ::
  "(string \<Rightarrow> pyfloat option) \<Rightarrow> (json \<Rightarrow> string) \<Rightarrow> json list \<Rightarrow> error + json list" where
  "sanitize_all sf ssu [] = Inr []"
| "sanitize_all sf ssu (r # rs) =
     ebind (sanitize_reading sf ssu r) (\<lambda>r'.
       ebind (sanitize_all sf ssu rs) (\<lambda>rs'. Inr (r' # rs')))"

definition unwrap_data :: "json \<Rightarrow> json" where
  "unwrap_data v =
     (case v of
        JDict d \<Rightarrow> (case map_of d ''data'' of None \<Rightarrow> v | Some x \<Rightarrow> x)
      | _ \<Rightarrow> v)"

fun is_list :: "json \<Rightarrow> bool" where
  "is_list (JList xs) = True"
| "is_list _ = False"

text \<open>\<open>_fetch_from_api\<close>: every exception ends in \<open>return None\<close>.\<close>

definition fetch_from_api ::
  "(string \<Rightarrow> pyfloat option) \<Rightarrow> (json \<Rightarrow> string) \<Rightarrow> upstream \<Rightarrow> json list option" where
  "fetch_from_api sf ssu resp =
     (case resp of
        Body v \<Rightarrow>
          (case unwrap_data v of
             JList xs \<Rightarrow> (case sanitize_all sf ssu xs of Inl e \<Rightarrow> None | Inr ys \<Rightarrow> Some ys)
           | _ \<Rightarrow> None)
      | _ \<Rightarrow> None)"

text \<open>
  \<open>fetch_weather_data\<close>.  The cache is read and written at up to four instants: \<open>get\<close>,
  \<open>should_fetch\<close>, then \<open>set\<close> or \<open>record_error\<close>, then \<open>get_stale_data\<close>.  \<open>resp\<close> is what
  the upstream request comes to if it is made, and \<open>called_api\<close> records whether it was.
  The returned Python value is \<open>None\<close> or a list.
\<close>

record fetch_clock =
  t_get :: instant
  t_should :: instant
  t_commit :: instant
  t_stale :: instant

record fetch_result =
  returned :: "json list option"
  cache_after :: WeatherCache
  called_api :: bool

fun truthy_list :: "json list option \<Rightarrow> bool" where
  "truthy_list None = False"
| "truthy_list (Some xs) = (xs \<noteq> [])"

definition fetch_failed :: "WeatherCache \<Rightarrow> fetch_clock \<Rightarrow> fetch_result" where
  "fetch_failed c clk =
     (let c1 = record_error c (t_commit clk);
          stale_data = get_stale_data c1 (t_stale clk)
      in if truthy_list stale_data
         then \<lparr> returned = stale_data, cache_after = c1, called_api = True \<rparr>
         else \<lparr> returned = Some [], cache_after = c1, called_api = True \<rparr>)"

definition fetch_weather_data ::
  "(string \<Rightarrow> pyfloat option) \<Rightarrow> (json \<Rightarrow> string) \<Rightarrow> WeatherCache \<Rightarrow> fetch_clock \<Rightarrow> upstream \<Rightarrow> bool
     \<Rightarrow> fetch_result" where
  "fetch_weather_data sf ssu c clk resp force_refresh =
     (case cache_get c (t_get clk) of (cached_data, is_fresh, last_succ) \<Rightarrow>
        if is_fresh \<and> \<not> force_refresh
        then \<lparr> returned = cached_data, cache_after = c, called_api = False \<rparr>
        else if \<not> should_fetch c (t_should clk) \<and> \<not> force_refresh \<and> truthy_list cached_data
        then \<lparr> returned = cached_data, cache_after = c, called_api = False \<rparr>
        else (case fetch_from_api sf ssu resp of
                None \<Rightarrow> fetch_failed c clk
              | Some [] \<Rightarrow> fetch_failed c clk
              | Some (r # rs) \<Rightarrow>
                  \<lparr> returned = Some (r # rs),
                    cache_after = cache_set c (t_commit clk) (r # rs) True,
                    called_api = True \<rparr>))"


section \<open>Thresholds and display configuration (config.py)\<close>

definition RAINFALL_HEAVY :: pyfloat where "RAINFALL_HEAVY = Fin 30"
definition RAINFALL_MODERATE :: pyfloat where "RAINFALL_MODERATE = Fin 15"
definition RAINFALL_LIGHT :: pyfloat where "RAINFALL_LIGHT = Fin 5"

definition WATER_CRITICAL :: pyfloat where "WATER_CRITICAL = Fin 1000"
definition WATER_WARNING :: pyfloat where "WATER_WARNING = Fin 900"
definition WATER_ALERT :: pyfloat where "WATER_ALERT = Fin 800"
definition WATER_ADVISORY :: pyfloat where "WATER_ADVISORY = Fin 700"

record AlertLevelInfo =
  ai_level :: string
  ai_icon :: string
  ai_color :: string
  ai_description :: string

record RainfallForecast =
  rf_level :: string
  rf_icon :: string
  rf_color :: string

text \<open>\<open>AlertLevelConfig.get_config\<close>: an unknown level gets the entry of \<open>normal\<close>.\<close>

definition AlertLevelConfig_get_config :: "string \<Rightarrow> AlertLevelInfo" where
  "AlertLevelConfig_get_config alert_level =
     (if alert_level = ''critical'' then
        \<lparr> ai_level = ''Critical'', ai_icon = ''fa-exclamation-triangle'', ai_color = ''#ff006e'',
          ai_description = ''Immediate evacuation required'' \<rparr>
      else if alert_level = ''warning'' then
        \<lparr> ai_level = ''Warning'', ai_icon = ''fa-exclamation-circle'', ai_color = ''#fb8500'',
          ai_description = ''Prepare for evacuation'' \<rparr>
      else if alert_level = ''alert'' then
        \<lparr> ai_level = ''Alert'', ai_icon = ''fa-bolt'', ai_color = ''#ffbe0b'',
          ai_description = ''Monitor situation closely'' \<rparr>
      else if alert_level = ''advisory'' then
        \<lparr> ai_level = ''Advisory'', ai_icon = ''fa-info-circle'', ai_color = ''#409ac7'',
          ai_description = ''Stay informed'' \<rparr>
      else
        \<lparr> ai_level = ''Normal'', ai_icon = ''fa-check-circle'', ai_color = ''#409ac7'',
          ai_description = ''All systems normal'' \<rparr>)"

text \<open>\<open>RainfallForecastConfig.get_config\<close>: an unknown level gets the entry of \<open>no_data\<close>.\<close>

definition RainfallForecastConfig_get_config :: "string \<Rightarrow> RainfallForecast" where
  "RainfallForecastConfig_get_config rainfall_level =
     (if rainfall_level = ''heavy'' then
        \<lparr> rf_level = ''Heavy Rain'', rf_icon = ''fa-cloud-showers-heavy'', rf_color = ''#ff006e'' \<rparr>
      else if rainfall_level = ''moderate'' then
        \<lparr> rf_level = ''Moderate Rain'', rf_icon = ''fa-cloud-rain'', rf_color = ''#fb8500'' \<rparr>
      else if rainfall_level = ''light'' then
        \<lparr> rf_level = ''Light Rain'', rf_icon = ''fa-cloud-sun-rain'', rf_color = ''#409ac7'' \<rparr>
      else if rainfall_level = ''none'' then
        \<lparr> rf_level = ''Clear'', rf_icon = ''fa-sun'', rf_color = ''#409ac7'' \<rparr>
      else
        \<lparr> rf_level = ''No Data'', rf_icon = ''fa-question-circle'', rf_color = ''#9ca3af'' \<rparr>)"

section \<open>MetricsService (services/metrics\_service.py)\<close>

definition STATION_OFFLINE_THRESHOLD_MINUTES :: int where
  "STATION_OFFLINE_THRESHOLD_MINUTES = 60"

definition TOTAL_STATIONS :: int where
  "TOTAL_STATIONS = 5"

text \<open>
  The library calls of the timestamp parsers are parameters: \<open>strptime text format\<close> and
  \<open>fromisoformat text\<close> give the instant read, or \<open>None\<close> where Python raises
  \<open>ValueError\<close>; \<open>repr_of v\<close> is \<open>str(v)\<close> for a value that is not a string.  An instant
  read with a UTC offset is kept as its wall-clock time, which is what remains of it once
  the callers have dropped \<open>tzinfo\<close>.
\<close>

record dtlib =
  strptime :: "string \<Rightarrow> string \<Rightarrow> instant option"
  fromisoformat :: "string \<Rightarrow> instant option"
  repr_of :: "json \<Rightarrow> string"

definition py_str :: "dtlib \<Rightarrow> json \<Rightarrow> string" where
  "py_str L v = (case v of JStr t \<Rightarrow> t | _ \<Rightarrow> repr_of L v)"

text \<open>\<open>s.replace('Z', new)\<close> and \<open>s.split(c)[0]\<close>.\<close>

definition replace_Z :: "string \<Rightarrow> string \<Rightarrow> string" where
  "replace_Z new t = concat (map (\<lambda>ch. if ch = CHR ''Z'' then new else [ch]) t)"

definition split_head :: "char \<Rightarrow> string \<Rightarrow> string" where
  "split_head c t = takeWhile (\<lambda>ch. ch \<noteq> c) t"

text \<open>
  \<open>_to_float\<close>: \<open>None\<close> stays \<open>None\<close>; \<open>TypeError\<close> and \<open>ValueError\<close> of \<open>float\<close> are
  caught.
\<close>

definition to_float :: "(string \<Rightarrow> pyfloat option) \<Rightarrow> json \<Rightarrow> error + pyfloat option" where
  "to_float sf v =
     (if v = JNone then Inr None
      else (case py_float sf v of
              Inr x \<Rightarrow> Inr (Some x)
            | Inl e \<Rightarrow> if e = TypeError \<or> e = ValueError then Inr None else Inl e))"

text \<open>
  \<open>MetricsService._parse_timestamp\<close>; everything after the three lookups is inside the
  \<open>try\<close>.  A value decoded from JSON is never a \<open>datetime\<close>, so the \<open>isinstance\<close> test is
  always false.
\<close>

definition metrics_parse_str :: "dtlib \<Rightarrow> json \<Rightarrow> instant option" where
  "metrics_parse_str L timestamp_str =
     (let ts = replace_Z ''+00:00'' (py_str L timestamp_str);
          clean_ts = split_head CHR ''.'' (split_head CHR ''+'' ts)
      in case strptime L clean_ts ''%Y-%m-%dT%H:%M:%S'' of
           Some t \<Rightarrow> Some t
         | None \<Rightarrow>
             (case strptime L clean_ts ''%Y-%m-%d %H:%M:%S'' of
                Some t \<Rightarrow> Some t
              | None \<Rightarrow> fromisoformat L (replace_Z [] ts)))"

definition metrics_parse_timestamp :: "dtlib \<Rightarrow> json \<Rightarrow> error + instant option" where
  "metrics_parse_timestamp L data =
     ebind (py_get data ''DateTime'') (\<lambda>a.
       ebind (if truthy a then Inr a
              else ebind (py_get data ''DateTimeStamp'') (\<lambda>b.
                     if truthy b then Inr b else py_get data ''Timestamp'')) (\<lambda>timestamp_str.
         if \<not> truthy timestamp_str then Inr None
         else Inr (metrics_parse_str L timestamp_str)))"

definition is_station_online :: "dtlib \<Rightarrow> instant \<Rightarrow> json \<Rightarrow> error + bool" where
  "is_station_online L now data =
     (if \<not> truthy data then Inr False
      else ebind (metrics_parse_timestamp L data) (\<lambda>timestamp.
             case timestamp of
               None \<Rightarrow> Inr False
             | Some t \<Rightarrow> Inr (now - t \<le> minutes STATION_OFFLINE_THRESHOLD_MINUTES)))"

text \<open>\<open>self.sites\<close>: the \<open>id\<close> and the \<open>name\<close> of each configured site.\<close>

type_synonym site = "string \<times> string"

fun get_station_name :: "site list \<Rightarrow> string \<Rightarrow> string" where
  "get_station_name [] station_id = station_id"
| "get_station_name ((sid, name) # sites) station_id =
     (if sid = station_id then name else get_station_name sites station_id)"

definition get_alert_level :: "(string \<Rightarrow> pyfloat option) \<Rightarrow> json \<Rightarrow> error + string" where
  "get_alert_level sf water_level =
     ebind (to_float sf water_level) (\<lambda>level.
       case level of
         None \<Rightarrow> Inr ''normal''
       | Some l \<Rightarrow>
           Inr (if fge l WATER_CRITICAL then ''critical''
                else if fge l WATER_WARNING then ''warning''
                else if fge l WATER_ALERT then ''alert''
                else if fge l WATER_ADVISORY then ''advisory''
                else ''normal''))"

definition get_rainfall_level :: "(string \<Rightarrow> pyfloat option) \<Rightarrow> json \<Rightarrow> error + string" where
  "get_rainfall_level sf rainfall =
     ebind (to_float sf rainfall) (\<lambda>level.
       case level of
         None \<Rightarrow> Inr ''no_data''
       | Some l \<Rightarrow>
           Inr (if fge l RAINFALL_HEAVY then ''heavy''
                else if fge l RAINFALL_MODERATE then ''moderate''
                else if fge l RAINFALL_LIGHT then ''light''
                else ''none''))"

text \<open>A float or \<open>None\<close> handed on as an argument.\<close>

definition opt_float :: "pyfloat option \<Rightarrow> json" where
  "opt_float x = (case x of None \<Rightarrow> JNone | Some y \<Rightarrow> JFloat y)"

record StationAlert =
  sa_station_id :: string
  sa_station_name :: string
  sa_alert_level :: string
  sa_water_level :: pyfloat
  sa_is_online :: bool
  sa_last_update :: "instant option"

record DashboardMetrics =
  highest_alert_level :: string
  highest_alert_count :: int
  critical_count :: int
  warning_count :: int
  alert_count :: int
  advisory_count :: int
  attention_stations :: "string list"
  online_sensors :: int
  total_sensors :: int
  offline_stations :: "string list"
  rainfall_forecast :: RainfallForecast
  alert_level_info :: AlertLevelInfo
  station_alerts :: "StationAlert list"

text \<open>The local variables of \<open>calculate_dashboard_metrics\<close> that its loop updates.\<close>

record dash_acc =
  alert_counts :: "string \<Rightarrow> int"
  acc_attention :: "string list"
  acc_offline :: "string list"
  acc_alerts :: "StationAlert list"
  online_count :: int
  total_rainfall :: pyfloat
  rainfall_readings :: int

definition dash_init :: dash_acc where
  "dash_init = \<lparr> alert_counts = (\<lambda>level. 0), acc_attention = [], acc_offline = [],
                 acc_alerts = [], online_count = 0, total_rainfall = Fin 0,
                 rainfall_readings = 0 \<rparr>"

text \<open>One round of the loop \<open>for station_id, data in station_data.items()\<close>.\<close>

definition dash_step ::
  "(string \<Rightarrow> pyfloat option) \<Rightarrow> dtlib \<Rightarrow> site list \<Rightarrow> instant \<Rightarrow> dash_acc \<Rightarrow> string \<times> json
     \<Rightarrow> error + dash_acc" where
  "dash_step sf L sites now acc item =
     (case item of (station_id, data) \<Rightarrow>
        let station_name = get_station_name sites station_id
        in if \<not> truthy data
           then Inr (acc\<lparr> acc_offline := acc_offline acc @ [station_name] \<rparr>)
           else
             ebind (is_station_online L now data) (\<lambda>is_online.
             let acc1 = (if is_online then acc\<lparr> online_count := online_count acc + 1 \<rparr>
                         else acc\<lparr> acc_offline := acc_offline acc @ [station_name] \<rparr>)
             in
             ebind (py_get data ''WaterLevel'') (\<lambda>wl.
             ebind (to_float sf wl) (\<lambda>water_level.
             ebind (get_alert_level sf (opt_float water_level)) (\<lambda>alert_level.
             ebind (metrics_parse_timestamp L data) (\<lambda>last_update.
             let acc2 = acc1\<lparr> alert_counts := (alert_counts acc1)
                                  (alert_level := alert_counts acc1 alert_level + 1) \<rparr>;
                 station_alert =
                   \<lparr> sa_station_id = station_id, sa_station_name = station_name,
                     sa_alert_level = alert_level,
                     sa_water_level =
                       (case water_level of
                          None \<Rightarrow> Fin 0
                        | Some w \<Rightarrow> if truthy (JFloat w) then w else Fin 0),
                     sa_is_online = is_online, sa_last_update = last_update \<rparr>;
                 acc3 = acc2\<lparr> acc_alerts := acc_alerts acc2 @ [station_alert] \<rparr>;
                 acc4 = (if alert_level \<in> set [''critical'', ''warning'', ''alert'']
                         then acc3\<lparr> acc_attention := acc_attention acc3 @ [station_name] \<rparr>
                         else acc3)
             in
             ebind (py_get data ''HourlyRain'') (\<lambda>hr.
             ebind (to_float sf hr) (\<lambda>rainfall.
               case rainfall of
                 None \<Rightarrow> Inr acc4
               | Some r \<Rightarrow>
                   Inr (acc4\<lparr> total_rainfall := fadd (total_rainfall acc4) r,
                              rainfall_readings := rainfall_readings acc4 + 1 \<rparr>)))))))))"

fun dash_loop ::
  "(string \<Rightarrow> pyfloat option) \<Rightarrow> dtlib \<Rightarrow> site list \<Rightarrow> instant \<Rightarrow> dash_acc \<Rightarrow> (string \<times> json) list
     \<Rightarrow> error + dash_acc" where
  "dash_loop sf L sites now acc [] = Inr acc"
| "dash_loop sf L sites now acc (item # items) =
     ebind (dash_step sf L sites now acc item) (\<lambda>acc'. dash_loop sf L sites now acc' items)"

text \<open>The scan \<open>for level in ['critical', 'warning', 'alert', 'advisory']\<close> with its \<open>break\<close>.\<close>

fun highest_alert :: "(string \<Rightarrow> int) \<Rightarrow> string list \<Rightarrow> string \<times> int" where
  "highest_alert counts [] = (''normal'', 0)"
| "highest_alert counts (level # levels) =
     (if counts level > 0 then (level, counts level) else highest_alert counts levels)"

definition get_rainfall_forecast ::
  "(string \<Rightarrow> pyfloat option) \<Rightarrow> json \<Rightarrow> error + RainfallForecast" where
  "get_rainfall_forecast sf avg_rainfall =
     ebind (get_rainfall_level sf avg_rainfall) (\<lambda>rainfall_level.
       Inr (RainfallForecastConfig_get_config rainfall_level))"

definition get_alert_level_info :: "string \<Rightarrow> AlertLevelInfo" where
  "get_alert_level_info alert_level = AlertLevelConfig_get_config alert_level"

definition calculate_dashboard_metrics ::
  "(string \<Rightarrow> pyfloat option) \<Rightarrow> dtlib \<Rightarrow> site list \<Rightarrow> instant \<Rightarrow> (string \<times> json) list
     \<Rightarrow> error + DashboardMetrics" where
  "calculate_dashboard_metrics sf L sites now station_data =
     ebind (dash_loop sf L sites now dash_init station_data) (\<lambda>acc.
       case highest_alert (alert_counts acc) [''critical'', ''warning'', ''alert'', ''advisory''] of
         (highest_level, highest_count) \<Rightarrow>
       ebind (if rainfall_readings acc > 0
              then ebind (fdiv_int (total_rainfall acc) (rainfall_readings acc))
                     (\<lambda>q. Inr (JFloat q))
              else Inr (JInt 0)) (\<lambda>avg_rainfall.
       ebind (get_rainfall_forecast sf avg_rainfall) (\<lambda>forecast.
         Inr \<lparr> highest_alert_level = highest_level,
               highest_alert_count = highest_count,
               critical_count = alert_counts acc ''critical'',
               warning_count = alert_counts acc ''warning'',
               alert_count = alert_counts acc ''alert'',
               advisory_count = alert_counts acc ''advisory'',
               attention_stations = acc_attention acc,
               online_sensors = online_count acc,
               total_sensors = TOTAL_STATIONS,
               offline_stations = acc_offline acc,
               rainfall_forecast = forecast,
               alert_level_info = get_alert_level_info highest_level,
               station_alerts = acc_alerts acc \<rparr>)))"

text \<open>
  The alert levels in their order of severity, the reverse of the order in which
  \<open>get_alert_level\<close> and the scan for the highest level try them.
\<close>

definition severity :: "string \<Rightarrow> nat" where
  "severity level =
     (if level = ''critical'' then 4
      else if level = ''warning'' then 3
      else if level = ''alert'' then 2
      else if level = ''advisory'' then 1
      else 0)"

text \<open>The chain of comparisons of \<open>get_alert_level\<close>, on a float.\<close>

definition alert_of :: "pyfloat \<Rightarrow> string" where
  "alert_of l = (if fge l WATER_CRITICAL then ''critical''
                else if fge l WATER_WARNING then ''warning''
                else if fge l WATER_ALERT then ''alert''
                else if fge l WATER_ADVISORY then ''advisory''
                else ''normal'')"


section \<open>Hourly intervals (services/precipitation\_service.py, services/water\_level\_service.py)\<close>

text \<open>
  The two services differ in the field they read, in the values they accept, in the
  classifier they call and in the number of decimals they round to; everything else is the
  same text twice.  A value of \<open>svc\<close> holds the four differences.
\<close>

record svc =
  metric_field :: string
  valid_value :: "pyfloat \<Rightarrow> bool"
  classify :: "(string \<Rightarrow> pyfloat option) \<Rightarrow> json \<Rightarrow> error + string"
  ndigits :: nat

definition MIN_VALID_WATER_LEVEL :: pyfloat where "MIN_VALID_WATER_LEVEL = Fin 0"
definition MAX_VALID_WATER_LEVEL :: pyfloat where "MAX_VALID_WATER_LEVEL = Fin 15"

definition WaterLevelService :: svc where
  "WaterLevelService =
     \<lparr> metric_field = ''WaterLevel'',
       valid_value = (\<lambda>x. fle MIN_VALID_WATER_LEVEL x \<and> fle x MAX_VALID_WATER_LEVEL),
       classify = get_alert_level,
       ndigits = 2 \<rparr>"

definition PrecipitationService :: svc where
  "PrecipitationService =
     \<lparr> metric_field = ''HourlyRain'',
       valid_value = (\<lambda>x. \<not> flt x (Fin 0)),
       classify = get_rainfall_level,
       ndigits = 1 \<rparr>"

definition START_HOUR :: int where "START_HOUR = 0"
definition END_HOUR :: int where "END_HOUR = 23"
definition DATA_INTERVAL_HOURS :: int where "DATA_INTERVAL_HOURS = 1"
definition LABEL_INTERVAL_HOURS :: int where "LABEL_INTERVAL_HOURS = 2"

text \<open>The calendar date and the hour of an instant, and \<open>dt.replace(hour=h, minute=0, ...)\<close>.\<close>

definition date_of :: "instant \<Rightarrow> int" where
  "date_of t = t div hours 24"

definition hour_of :: "instant \<Rightarrow> int" where
  "hour_of t = (t mod hours 24) div hours 1"

definition at_hour :: "instant \<Rightarrow> int \<Rightarrow> instant" where
  "at_hour t h = t - t mod hours 24 + hours h"

text \<open>
  \<open>_parse_timestamp\<close> of the two services: \<open>strptime\<close> raises \<open>TypeError\<close> on an argument
  that is not a string, and nothing catches it.
\<close>

definition parse_timestamp :: "dtlib \<Rightarrow> json \<Rightarrow> error + instant option" where
  "parse_timestamp L timestamp_str =
     (if \<not> truthy timestamp_str then Inr None
      else (case timestamp_str of
              JStr t \<Rightarrow>
                (case strptime L t ''%Y-%m-%d %H:%M:%S'' of
                   Some dt \<Rightarrow> Inr (Some dt)
                 | None \<Rightarrow>
                     (case strptime L t ''%Y-%m-%d %H:%M:%S.%f'' of
                        Some dt \<Rightarrow> Inr (Some dt)
                      | None \<Rightarrow>
                          (case fromisoformat L (replace_Z ''+00:00'' t) of
                             Some dt \<Rightarrow> Inr (Some dt)
                           | None \<Rightarrow> Inr None)))
            | _ \<Rightarrow> Inl TypeError))"

text \<open>\<open>reading.get('DateTime') or reading.get('DateTimeStamp', '')\<close>.\<close>

definition timestamp_field :: "json \<Rightarrow> error + json" where
  "timestamp_field reading =
     ebind (py_get reading ''DateTime'') (\<lambda>a.
       if truthy a then Inr a else py_get_default reading ''DateTimeStamp'' (JStr []))"

text \<open>The search for the latest timestamp, when no target date is given.\<close>

fun latest_timestamp :: "dtlib \<Rightarrow> instant option \<Rightarrow> json list \<Rightarrow> error + instant option" where
  "latest_timestamp L latest [] = Inr latest"
| "latest_timestamp L latest (reading # rest) =
     ebind (timestamp_field reading) (\<lambda>timestamp_str.
       ebind (parse_timestamp L timestamp_str) (\<lambda>parsed.
         case parsed of
           None \<Rightarrow> latest_timestamp L latest rest
         | Some p \<Rightarrow>
             (case latest of
                None \<Rightarrow> latest_timestamp L (Some p) rest
              | Some l \<Rightarrow> if p > l then latest_timestamp L (Some p) rest
                          else latest_timestamp L latest rest)))"

definition display_date_of ::
  "dtlib \<Rightarrow> instant \<Rightarrow> json list \<Rightarrow> instant option \<Rightarrow> error + instant" where
  "display_date_of L now weather_data target_date =
     (case target_date of
        Some d \<Rightarrow> Inr d
      | None \<Rightarrow>
          if weather_data = [] then Inr now
          else ebind (latest_timestamp L None weather_data) (\<lambda>latest.
                 case latest of Some l \<Rightarrow> Inr l | None \<Rightarrow> Inr now))"

text \<open>\<open>dt + delta\<close>: \<open>OverflowError\<close> when the sum leaves the calendar.\<close>

definition dt_add :: "instant \<Rightarrow> int \<Rightarrow> error + instant" where
  "dt_add dt delta =
     (if dt + delta < DATETIME_MIN \<or> DATETIME_MAX < dt + delta then Inl OverflowError
      else Inr (dt + delta))"

text \<open>
  \<open>_create_hourly_intervals\<close>: the \<open>while\<close> loop, which adds an hour to \<open>current\<close> after
  every instant it appends, and the log line that reads \<open>intervals[0]\<close>.
\<close>

function intervals_from :: "instant \<Rightarrow> instant \<Rightarrow> error + instant list" where
  "intervals_from current end_time =
     (if current \<le> end_time
      then (case dt_add current (hours DATA_INTERVAL_HOURS) of
              Inl e \<Rightarrow> Inl e
            | Inr next_time \<Rightarrow>
                (case intervals_from next_time end_time of
                   Inl e \<Rightarrow> Inl e
                 | Inr rest \<Rightarrow> Inr (current # rest)))
      else Inr [])"
  by pat_completeness auto
termination
  by (relation "measure (\<lambda>(current, end_time). nat (end_time - current + 1))")
     (auto simp: dt_add_def hours_def seconds_def DATA_INTERVAL_HOURS_def split: if_splits)

declare intervals_from.simps [simp del]

definition create_hourly_intervals :: "instant \<Rightarrow> instant \<Rightarrow> error + instant list" where
  "create_hourly_intervals start_time end_time =
     ebind (intervals_from start_time end_time) (\<lambda>intervals.
       if intervals = [] then Inl IndexError else Inr intervals)"

text \<open>
  The grouped values: \<open>station_data[station_id][interval_time]\<close>, a \<open>defaultdict\<close> of
  \<open>defaultdict(list)\<close>, read by the callers with \<open>get\<close> and an empty default.  Keys are
  compared as JSON values.
\<close>

type_synonym grouped = "json \<Rightarrow> instant \<Rightarrow> pyfloat list"

definition in_time_range :: "instant \<Rightarrow> instant \<Rightarrow> instant \<Rightarrow> bool" where
  "in_time_range start_time end_time parsed_time =
     (start_time \<le> parsed_time \<and> parsed_time \<le> end_time + hours 1)"

text \<open>The inner loop \<open>for interval_time in intervals\<close> with its \<open>break\<close>.\<close>

definition find_interval :: "instant list \<Rightarrow> instant \<Rightarrow> instant option" where
  "find_interval intervals parsed_time =
     find (\<lambda>interval_time. interval_time \<le> parsed_time
                           \<and> parsed_time < interval_time + hours 1) intervals"

fun hashable :: "json \<Rightarrow> bool" where
  "hashable (JList xs) = False"
| "hashable (JDict d) = False"
| "hashable _ = True"

text \<open>
  The body of the loop over the readings, inside its \<open>try\<close>.  A reading that is skipped
  or matches no slot leaves the grouped values as they are.  The hour added to \<open>end_time\<close>
  and to the slots is within the calendar once \<open>_create_hourly_intervals\<close> has returned
  for \<open>start_time\<close> and \<open>end_time\<close>.
\<close>

definition group_body ::
  "svc \<Rightarrow> (string \<Rightarrow> pyfloat option) \<Rightarrow> dtlib \<Rightarrow> instant list \<Rightarrow> instant \<Rightarrow> instant \<Rightarrow> grouped
     \<Rightarrow> json \<Rightarrow> error + grouped" where
  "group_body S sf L intervals start_time end_time station_data reading =
     ebind (timestamp_field reading) (\<lambda>timestamp_str.
     ebind (parse_timestamp L timestamp_str) (\<lambda>parsed.
       case parsed of
         None \<Rightarrow> Inr station_data
       | Some parsed_time \<Rightarrow>
           if \<not> in_time_range start_time end_time parsed_time then Inr station_data
           else
             ebind (py_get reading ''StationID'') (\<lambda>station_id.
             ebind (py_get reading (metric_field S)) (\<lambda>v.
               if \<not> truthy station_id \<or> v = JNone then Inr station_data
               else (case py_float sf v of
                       Inl e \<Rightarrow> if e = ValueError \<or> e = TypeError then Inr station_data else Inl e
                     | Inr x \<Rightarrow>
                         if \<not> valid_value S x then Inr station_data
                         else (case find_interval intervals parsed_time of
                                 None \<Rightarrow> Inr station_data
                               | Some interval_time \<Rightarrow>
                                   if \<not> hashable station_id then Inl TypeError
                                   else Inr (station_data
                                          (station_id := (station_data station_id)
                                             (interval_time :=
                                                station_data station_id interval_time @ [x])))))))))"

text \<open>One reading: \<open>KeyError\<close> and \<open>AttributeError\<close> are logged and the loop goes on.\<close>

definition group_step ::
  "svc \<Rightarrow> (string \<Rightarrow> pyfloat option) \<Rightarrow> dtlib \<Rightarrow> instant list \<Rightarrow> instant \<Rightarrow> instant \<Rightarrow> grouped
     \<Rightarrow> json \<Rightarrow> error + grouped" where
  "group_step S sf L intervals start_time end_time station_data reading =
     (case group_body S sf L intervals start_time end_time station_data reading of
        Inl e \<Rightarrow> if e = KeyError \<or> e = AttributeError then Inr station_data else Inl e
      | Inr g \<Rightarrow> Inr g)"

fun group_loop ::
  "svc \<Rightarrow> (string \<Rightarrow> pyfloat option) \<Rightarrow> dtlib \<Rightarrow> instant list \<Rightarrow> instant \<Rightarrow> instant \<Rightarrow> grouped
     \<Rightarrow> json list \<Rightarrow> error + grouped" where
  "group_loop S sf L intervals start_time end_time station_data [] = Inr station_data"
| "group_loop S sf L intervals start_time end_time station_data (reading # rest) =
     ebind (group_step S sf L intervals start_time end_time station_data reading)
       (\<lambda>g. group_loop S sf L intervals start_time end_time g rest)"

definition group_readings_by_station_and_interval ::
  "svc \<Rightarrow> (string \<Rightarrow> pyfloat option) \<Rightarrow> dtlib \<Rightarrow> json list \<Rightarrow> instant list \<Rightarrow> instant \<Rightarrow> instant
     \<Rightarrow> error + grouped" where
  "group_readings_by_station_and_interval S sf L weather_data intervals start_time end_time =
     group_loop S sf L intervals start_time end_time (\<lambda>station_id interval_time. []) weather_data"

text \<open>Decimal digits of a natural number, for the hour in a label.\<close>

fun str_nat :: "nat \<Rightarrow> string" where
  "str_nat n =
     (if n < 10 then [char_of (48 + n)]
      else str_nat (n div 10) @ [char_of (48 + n mod 10)])"

definition format_time_label :: "instant \<Rightarrow> string" where
  "format_time_label dt =
     (let hour = hour_of dt
      in if hour = 0 then ''12 AM''
         else if hour < 12 then str_nat (nat hour) @ '' AM''
         else if hour = 12 then ''12 PM''
         else str_nat (nat (hour - 12)) @ '' PM'')"

definition get_day_label :: "instant \<Rightarrow> instant \<Rightarrow> string" where
  "get_day_label dt display_date =
     (if date_of dt = date_of display_date then ''Today''
      else if date_of dt < date_of display_date then ''Yesterday''
      else ''Tomorrow'')"

text \<open>
  \<open>round(x, n)\<close>: an integer is returned as it is, a finite float is rounded to \<open>n\<close>
  decimals, ties to even.
\<close>

definition round_half_even :: "rat \<Rightarrow> int" where
  "round_half_even q =
     (let f = \<lfloor>q\<rfloor>; d = q - of_int f
      in if d < 1 / 2 then f
         else if d > 1 / 2 then f + 1
         else if even f then f else f + 1)"

definition py_round :: "json \<Rightarrow> nat \<Rightarrow> json" where
  "py_round v n =
     (case v of
        JFloat (Fin q) \<Rightarrow> JFloat (Fin (of_int (round_half_even (q * 10 ^ n)) / 10 ^ n))
      | _ \<Rightarrow> v)"

text \<open>
  \<open>WaterLevelDataPoint\<close> and \<open>PrecipitationDataPoint\<close>; \<open>dp_category\<close> is \<open>alert_level\<close> in
  the one and \<open>intensity\<close> in the other, and \<open>dp_timestamp\<close> is the instant that
  \<open>isoformat\<close> prints.
\<close>

record datapoint =
  dp_label :: string
  dp_y :: json
  dp_category :: string
  dp_day :: string
  dp_timestamp :: instant
  dp_count :: nat
  dp_show_label :: bool

text \<open>\<open>sum(values) / len(values) if values else 0\<close>.\<close>

definition average :: "pyfloat list \<Rightarrow> error + json" where
  "average vs =
     (if vs \<noteq> []
      then ebind (fdiv_int (foldl fadd (Fin 0) vs) (int (length vs))) (\<lambda>q. Inr (JFloat q))
      else Inr (JInt 0))"

definition format_point ::
  "svc \<Rightarrow> (string \<Rightarrow> pyfloat option) \<Rightarrow> (instant \<Rightarrow> pyfloat list) \<Rightarrow> instant \<Rightarrow> instant
     \<Rightarrow> error + datapoint" where
  "format_point S sf interval_data display_date interval_time =
     (let vs = interval_data interval_time
      in ebind (average vs) (\<lambda>avg.
         ebind (classify S sf avg) (\<lambda>category.
           Inr \<lparr> dp_label = format_time_label interval_time,
                 dp_y = py_round avg (ndigits S),
                 dp_category = category,
                 dp_day = get_day_label interval_time display_date,
                 dp_timestamp = interval_time,
                 dp_count = length vs,
                 dp_show_label = (hour_of interval_time mod LABEL_INTERVAL_HOURS = 0) \<rparr>)))"

fun format_interval_data_with_labels ::
  "svc \<Rightarrow> (string \<Rightarrow> pyfloat option) \<Rightarrow> instant list \<Rightarrow> (instant \<Rightarrow> pyfloat list) \<Rightarrow> instant
     \<Rightarrow> error + datapoint list" where
  "format_interval_data_with_labels S sf [] interval_data display_date = Inr []"
| "format_interval_data_with_labels S sf (interval_time # rest) interval_data display_date =
     ebind (format_point S sf interval_data display_date interval_time) (\<lambda>p.
       ebind (format_interval_data_with_labels S sf rest interval_data display_date) (\<lambda>ps.
         Inr (p # ps)))"

text \<open>The loop \<open>for site in sites\<close> that fills \<open>result\<close>.\<close>

fun format_sites ::
  "svc \<Rightarrow> (string \<Rightarrow> pyfloat option) \<Rightarrow> instant list \<Rightarrow> grouped \<Rightarrow> instant
     \<Rightarrow> (string \<times> datapoint list) list \<Rightarrow> site list \<Rightarrow> error + (string \<times> datapoint list) list" where
  "format_sites S sf intervals station_interval_data display_date result [] = Inr result"
| "format_sites S sf intervals station_interval_data display_date result ((station_id, name) # rest) =
     ebind (format_interval_data_with_labels S sf intervals
              (station_interval_data (JStr station_id)) display_date) (\<lambda>formatted_data.
       format_sites S sf intervals station_interval_data display_date
         (AList.update station_id formatted_data result) rest)"

definition get_24hour_intervals_per_station ::
  "svc \<Rightarrow> (string \<Rightarrow> pyfloat option) \<Rightarrow> dtlib \<Rightarrow> instant \<Rightarrow> json list \<Rightarrow> site list \<Rightarrow> instant option
     \<Rightarrow> error + (string \<times> datapoint list) list" where
  "get_24hour_intervals_per_station S sf L now weather_data sites target_date =
     ebind (display_date_of L now weather_data target_date) (\<lambda>display_date.
       let start_time = at_hour display_date START_HOUR;
           end_time = at_hour display_date END_HOUR
       in ebind (create_hourly_intervals start_time end_time) (\<lambda>intervals.
          ebind (group_readings_by_station_and_interval S sf L weather_data intervals
                   start_time end_time) (\<lambda>station_interval_data.
            format_sites S sf intervals station_interval_data display_date [] sites)))"

text \<open>
  A condition on a reading under which neither loop over the readings raises: a dict whose
  timestamp is a string or empty, whose station id can be a dict key, and whose metric
  value is not an integer beyond the range of a float.  It is sufficient, not necessary.
\<close>

fun is_str :: "json \<Rightarrow> bool" where
  "is_str (JStr t) = True"
| "is_str _ = False"

definition plain_reading :: "svc \<Rightarrow> json \<Rightarrow> bool" where
  "plain_reading S reading =
     (case reading of
        JDict d \<Rightarrow>
          (case timestamp_field reading of
             Inr ts \<Rightarrow> \<not> truthy ts \<or> is_str ts
           | Inl e \<Rightarrow> False)
          \<and> (case map_of d ''StationID'' of None \<Rightarrow> True | Some station_id \<Rightarrow> hashable station_id)
          \<and> (case map_of d (metric_field S) of
               Some (JInt i) \<Rightarrow> \<bar>i\<bar> < 2 ^ 1024 - 2 ^ 970
             | _ \<Rightarrow> True)
      | _ \<Rightarrow> False)"

text \<open>
  What is shown of the slot formatted for an interval: its instant, its count, and the
  value and category it has without readings.
\<close>

definition slot_ok :: "svc \<Rightarrow> (instant \<Rightarrow> pyfloat list) \<Rightarrow> instant \<Rightarrow> datapoint \<Rightarrow> bool" where
  "slot_ok S interval_data interval_time p =
     (dp_timestamp p = interval_time
      \<and> dp_count p = length (interval_data interval_time)
      \<and> (interval_data interval_time = [] \<longrightarrow>
            dp_y p = JInt 0
            \<and> (S = WaterLevelService \<longrightarrow> dp_category p = ''normal'')
            \<and> (S = PrecipitationService \<longrightarrow> dp_category p = ''none'')))"


section \<open>Sample inputs\<close>

text \<open>
  Instances of the parameters and sample cache states, used where a statement is evaluated
  on a concrete input.
\<close>

definition sf_demo :: "string \<Rightarrow> pyfloat option" where
  "sf_demo t = (if t = ''0.27'' then Some (Fin (27 / 100)) else None)"

definition ssu_demo :: "json \<Rightarrow> string" where
  "ssu_demo v = (case v of JStr t \<Rightarrow> t | _ \<Rightarrow> [])"

definition st1_readings :: "json list" where
  "st1_readings = [JDict [(''StationID'', JStr ''St1''), (''WaterLevel'', JFloat (Fin 2))]]"

definition old_cache :: WeatherCache where
  "old_cache = \<lparr> c_data = Some st1_readings, last_fetch = Some 0, last_success = Some 0,
       ttl = seconds 60, stale_ttl = seconds 300, fetch_errors = 0, backoff_until = None \<rparr>"

definition clock_at :: "instant \<Rightarrow> fetch_clock" where
  "clock_at t = \<lparr> t_get = t, t_should = t, t_commit = t, t_stale = t \<rparr>"

definition cold_backoff_cache :: WeatherCache where
  "cold_backoff_cache =
     foldl record_error (WeatherCache_init 60 300) [seconds 0, seconds 1, seconds 2]"


definition backoff_cache :: WeatherCache where
  "backoff_cache = old_cache\<lparr> fetch_errors := 3, backoff_until := Some (seconds 100) \<rparr>"

text \<open>A parser that knows two timestamps; instants count from 2025-01-01 00:00:00.\<close>

definition dtlib_demo :: dtlib where
  "dtlib_demo =
     \<lparr> strptime = (\<lambda>text fmt.
          if fmt = ''%Y-%m-%d %H:%M:%S'' then
            (if text = ''2025-01-01 12:00:00'' then Some (hours 12)
             else if text = ''2025-01-02 00:00:00'' then Some (hours 24)
             else None)
          else None),
       fromisoformat = (\<lambda>text. None),
       repr_of = (\<lambda>v. []) \<rparr>"

definition noon_reading :: json where
  "noon_reading =
     JDict [(''DateTime'', JStr ''2025-01-01 12:00:00''), (''StationID'', JStr ''St1''),
            (''WaterLevel'', JFloat (Fin 2)), (''HourlyRain'', JFloat (Fin 4))]"

definition midnight_reading :: json where
  "midnight_reading =
     JDict [(''DateTime'', JStr ''2025-01-02 00:00:00''), (''StationID'', JStr ''St1''),
            (''WaterLevel'', JFloat (Fin 2)), (''HourlyRain'', JFloat (Fin 4))]"

text \<open>The 24 slots of 2025-01-01.\<close>

definition day_slots :: "instant list" where
  "day_slots = map (\<lambda>k. 0 + hours (int k)) [0..<24]"

definition no_readings :: grouped where
  "no_readings station_id interval_time = []"

text \<open>The five stations of \<open>test_multiple_stations\<close>, all reporting at the same time.\<close>

definition station_reading :: "rat \<Rightarrow> string \<Rightarrow> json" where
  "station_reading level ts =
     JDict [(''WaterLevel'', JFloat (Fin level)), (''HourlyRain'', JFloat (Fin 0)),
            (''DateTime'', JStr ts)]"

definition five_stations ::
  "string \<Rightarrow> string \<Rightarrow> string \<Rightarrow> string \<Rightarrow> string \<Rightarrow> (string \<times> json) list" where
  "five_stations ts1 ts2 ts3 ts4 ts5 =
     [(''St1'', station_reading 1050 ts1), (''St2'', station_reading 950 ts2),
      (''St3'', station_reading 850 ts3), (''St4'', station_reading 750 ts4),
      (''St5'', station_reading 650 ts5)]"

definition epoch_reading :: json where
  "epoch_reading =
     JDict [(''DateTime'', JInt 1700000000), (''StationID'', JStr ''St1''),
            (''WaterLevel'', JFloat (Fin 2)), (''HourlyRain'', JFloat (Fin 4))]"

definition one_site :: "site list" where
  "one_site = [(''St1'', ''Binudegahan Station'')]"

text \<open>The slots returned for a station, empty if none are.\<close>

definition slots_of :: "error + (string \<times> datapoint list) list \<Rightarrow> string \<Rightarrow> datapoint list" where
  "slots_of result station_id =
     (case result of
        Inl e \<Rightarrow> []
      | Inr r \<Rightarrow> (case map_of r station_id of None \<Rightarrow> [] | Some slots \<Rightarrow> slots))"

section \<open>Backoff after repeated errors\<close>

lemma record_error_fetch_errors:
  "fetch_errors (record_error c now) = fetch_errors c + 1"
  by (simp add: record_error_def Let_def)

lemma record_error_last_fetch:
  "last_fetch (record_error c now) = last_fetch c"
  by (simp add: record_error_def Let_def)

lemma record_error_ttl:
  "ttl (record_error c now) = ttl c"
  by (simp add: record_error_def Let_def)

lemma foldl_record_error_fetch_errors:
  "fetch_errors (foldl record_error c ts) = fetch_errors c + int (length ts)"
  by (induction ts arbitrary: c) (simp_all add: record_error_fetch_errors)

lemma foldl_record_error_last_fetch:
  "last_fetch (foldl record_error c ts) = last_fetch c"
  by (induction ts arbitrary: c) (simp_all add: record_error_last_fetch)

lemma foldl_record_error_ttl:
  "ttl (foldl record_error c ts) = ttl c"
  by (induction ts arbitrary: c) (simp_all add: record_error_ttl)

lemma record_error_backoff_until:
  "fetch_errors c + 1 \<ge> 3 \<Longrightarrow>
   backoff_until (record_error c now) =
     Some (now + seconds (min (60 * 2 ^ nat (fetch_errors c + 1 - 3)) 300))"
  by (simp add: record_error_def Let_def max_errors_before_backoff_def)

lemma foldl_record_error_backoff_until:
  assumes "fetch_errors c = 0" and "ts \<noteq> []" and "length ts \<ge> 3"
  shows "backoff_until (foldl record_error c ts) =
           Some (last ts + seconds (min (60 * 2 ^ (length ts - 3)) 300))"
proof -
  obtain us t where ts: "ts = us @ [t]"
    using assms(2) by (metis append_butlast_last_id)
  let ?c = "foldl record_error c us"
  have n: "fetch_errors ?c + 1 = int (length ts)"
    by (simp add: foldl_record_error_fetch_errors assms(1) ts)
  have "backoff_until (record_error ?c t) =
          Some (t + seconds (min (60 * 2 ^ nat (fetch_errors ?c + 1 - 3)) 300))"
    by (rule record_error_backoff_until) (use n assms(3) in simp)
  moreover have "nat (fetch_errors ?c + 1 - 3) = length ts - 3"
    using n assms(3) by simp
  ultimately show ?thesis
    by (simp add: ts)
qed

lemma seconds_backoff_pos: "0 < seconds (min (60 * 2 ^ k) 300)"
  by (simp add: seconds_def min_def)

text \<open>
  C4.  Starting from a cache whose error counter is 0, let \<open>record_error\<close> be called
  \<open>n \<ge> 3\<close> times in a row, at the instants \<open>ts\<close>.  Then the backoff-until instant is the
  instant of the last call plus \<open>min (60 * 2^(n - 3)) 300\<close> seconds; \<open>should_fetch\<close> is
  false at the instant of the last call and at every instant before backoff-until; and at
  every instant from backoff-until on at which no fetch was recorded within the freshness
  TTL, \<open>should_fetch\<close> is true again.
\<close>

theorem record_error_backoff_window:
  assumes "fetch_errors c = 0" and "length ts = n" and "n \<ge> 3"
  shows "backoff_until (foldl record_error c ts) =
           Some (last ts + seconds (min (60 * 2 ^ (n - 3)) 300))
       \<and> should_fetch (foldl record_error c ts) (last ts) = False
       \<and> (\<forall>t. t < last ts + seconds (min (60 * 2 ^ (n - 3)) 300)
              \<longrightarrow> should_fetch (foldl record_error c ts) t = False)
       \<and> (\<forall>t. last ts + seconds (min (60 * 2 ^ (n - 3)) 300) \<le> t
              \<and> (case last_fetch c of None \<Rightarrow> True | Some lf \<Rightarrow> t - lf \<ge> ttl c)
              \<longrightarrow> should_fetch (foldl record_error c ts) t = True)"
proof -
  define c' where "c' = foldl record_error c ts"
  define until where "until = last ts + seconds (min (60 * 2 ^ (n - 3)) 300)"
  have ne: "ts \<noteq> []" using assms(2,3) by auto
  have b: "backoff_until c' = Some until"
    unfolding c'_def until_def
    using foldl_record_error_backoff_until [OF assms(1) ne] assms(2,3) by simp
  have "last ts < until"
    unfolding until_def using seconds_backoff_pos [of "n - 3"] by simp
  then have now: "should_fetch c' (last ts) = False"
    by (simp add: should_fetch_def b)
  have before: "\<forall>t. t < until \<longrightarrow> should_fetch c' t = False"
    by (simp add: should_fetch_def b)
  have after: "\<forall>t. until \<le> t \<and> (case last_fetch c of None \<Rightarrow> True | Some lf \<Rightarrow> t - lf \<ge> ttl c)
           \<longrightarrow> should_fetch c' t = True"
  proof (intro allI impI)
    fix t
    assume h: "until \<le> t \<and> (case last_fetch c of None \<Rightarrow> True | Some lf \<Rightarrow> t - lf \<ge> ttl c)"
    have lf: "last_fetch c' = last_fetch c" and tt: "ttl c' = ttl c"
      by (simp_all add: c'_def foldl_record_error_last_fetch foldl_record_error_ttl)
    from h show "should_fetch c' t = True"
      by (auto simp: should_fetch_def b lf tt split: option.splits)
  qed
  from b now before after show ?thesis
    unfolding c'_def until_def by blast
qed

theorem record_error_backoff_window_witness:
  "fetch_errors (WeatherCache_init 60 300) = 0
   \<and> length [seconds 0, seconds 1, seconds 2] = 3
   \<and> backoff_until (foldl record_error (WeatherCache_init 60 300) [seconds 0, seconds 1, seconds 2])
       = Some (seconds 62)
   \<and> should_fetch (foldl record_error (WeatherCache_init 60 300) [seconds 0, seconds 1, seconds 2])
       (seconds 2) = False
   \<and> should_fetch (foldl record_error (WeatherCache_init 60 300) [seconds 0, seconds 1, seconds 2])
       (seconds 61) = False
   \<and> should_fetch (foldl record_error (WeatherCache_init 60 300) [seconds 0, seconds 1, seconds 2])
       (seconds 62) = True"
proof -
  have h1: "fetch_errors (WeatherCache_init 60 300) = 0"
    by (simp add: WeatherCache_init_def)
  have h2: "length [seconds 0, seconds 1, seconds 2] = 3" by simp
  have lf: "last_fetch (WeatherCache_init 60 300) = None"
    by (simp add: WeatherCache_init_def)
  note w = record_error_backoff_window [OF h1 h2 order_refl]
  from w have "backoff_until (foldl record_error (WeatherCache_init 60 300) [seconds 0, seconds 1, seconds 2])
       = Some (seconds 62)"
    by (simp add: seconds_def)
  moreover from w have "should_fetch (foldl record_error (WeatherCache_init 60 300) [seconds 0, seconds 1, seconds 2])
       (seconds 2) = False"
    by simp
  moreover from w have "should_fetch (foldl record_error (WeatherCache_init 60 300) [seconds 0, seconds 1, seconds 2])
       (seconds 61) = False"
    by (simp add: seconds_def)
  moreover from w have "should_fetch (foldl record_error (WeatherCache_init 60 300) [seconds 0, seconds 1, seconds 2])
       (seconds 62) = True"
    by (simp add: seconds_def lf)
  ultimately show ?thesis using h1 h2 by blast
qed

section \<open>Fetching with fallback\<close>

lemma get_stale_data_eq: "get_stale_data c now = c_data c"
  by (simp add: get_stale_data_def split: option.splits)

lemma record_error_c_data: "c_data (record_error c now) = c_data c"
  by (simp add: record_error_def Let_def)

lemma fetch_failed_returned:
  "returned (fetch_failed c clk) = Some (case c_data c of None \<Rightarrow> [] | Some d \<Rightarrow> d)"
  by (cases "c_data c"; cases "the (c_data c)")
     (simp_all add: fetch_failed_def Let_def get_stale_data_eq record_error_c_data)

lemma listed_failures:
  "resp \<in> {Timeout, TransportError, HttpError, InvalidJson}
     \<or> (\<exists>v. resp = Body v \<and> \<not> is_list (unwrap_data v))
   \<Longrightarrow> fetch_from_api sf ssu resp = None"
  by (auto simp: fetch_from_api_def split: json.splits)

lemma fetch_returns_list:
  "\<exists>d. returned (fetch_weather_data sf ssu c clk resp force) = Some d"
  by (cases "c_data c")
     (auto simp: fetch_weather_data_def cache_get_def fetch_failed_returned
           split: option.splits list.splits)

lemma fetch_failure_returned:
  assumes "fetch_from_api sf ssu resp = None"
  shows "returned (fetch_weather_data sf ssu c clk resp force)
           = Some (case c_data c of None \<Rightarrow> [] | Some d \<Rightarrow> d)"
  using assms
  by (cases "c_data c")
     (auto simp: fetch_weather_data_def cache_get_def fetch_failed_returned
           split: option.splits list.splits)

text \<open>
  C1.  Whatever the upstream request comes to, \<open>fetch_weather_data\<close> returns a list (never
  \<open>None\<close>, and no exception leaves it: those of \<open>_fetch_from_api\<close> all end in its handlers).
  A timeout, a transport error, an HTTP error status, a body that is not JSON and a payload
  that is not a list each make \<open>_fetch_from_api\<close> return \<open>None\<close>; and whenever it does, the
  value returned is the cached data, of whatever age, and it is the empty list exactly when
  the cache holds no reading.
\<close>

theorem fetch_weather_data_degrades:
  "(\<exists>d. returned (fetch_weather_data sf ssu c clk resp force) = Some d)
   \<and> (resp \<in> {Timeout, TransportError, HttpError, InvalidJson}
        \<or> (\<exists>v. resp = Body v \<and> \<not> is_list (unwrap_data v))
      \<longrightarrow> fetch_from_api sf ssu resp = None)
   \<and> (fetch_from_api sf ssu resp = None
      \<longrightarrow> returned (fetch_weather_data sf ssu c clk resp force)
            = Some (case c_data c of None \<Rightarrow> [] | Some d \<Rightarrow> d)
        \<and> (returned (fetch_weather_data sf ssu c clk resp force) = Some []
             \<longleftrightarrow> c_data c = None \<or> c_data c = Some []))"
proof (intro conjI impI)
  show "\<exists>d. returned (fetch_weather_data sf ssu c clk resp force) = Some d"
    by (rule fetch_returns_list)
next
  assume "resp \<in> {Timeout, TransportError, HttpError, InvalidJson}
        \<or> (\<exists>v. resp = Body v \<and> \<not> is_list (unwrap_data v))"
  then show "fetch_from_api sf ssu resp = None" by (rule listed_failures)
next
  assume f: "fetch_from_api sf ssu resp = None"
  show r: "returned (fetch_weather_data sf ssu c clk resp force)
            = Some (case c_data c of None \<Rightarrow> [] | Some d \<Rightarrow> d)"
    by (rule fetch_failure_returned [OF f])
  show "returned (fetch_weather_data sf ssu c clk resp force) = Some []
             \<longleftrightarrow> c_data c = None \<or> c_data c = Some []"
    unfolding r by (cases "c_data c") auto
qed

theorem fetch_weather_data_degrades_witness:
  "Timeout \<in> {Timeout, TransportError, HttpError, InvalidJson}
   \<and> fetch_from_api sf_demo ssu_demo Timeout = None
   \<and> returned (fetch_weather_data sf_demo ssu_demo old_cache (clock_at (seconds 1000)) Timeout False)
       = Some st1_readings
   \<and> returned (fetch_weather_data sf_demo ssu_demo (WeatherCache_init 60 300) (clock_at (seconds 1000)) Timeout False)
       = Some []"
  using fetch_weather_data_degrades [of sf_demo ssu_demo old_cache "clock_at (seconds 1000)" Timeout False]
        fetch_weather_data_degrades [of sf_demo ssu_demo "WeatherCache_init 60 300" "clock_at (seconds 1000)" Timeout False]
  by (simp add: old_cache_def WeatherCache_init_def)

text \<open>
  C2 fails as stated: a dataset last fetched with success 1000 seconds ago, far beyond the
  stale window of 300 seconds, is served after a failed fetch.
\<close>

theorem stale_window_counterexample:
  "last_success old_cache = Some 0
   \<and> seconds 1000 - 0 > stale_ttl old_cache
   \<and> called_api (fetch_weather_data sf_demo ssu_demo old_cache (clock_at (seconds 1000)) Timeout False)
   \<and> returned (fetch_weather_data sf_demo ssu_demo old_cache (clock_at (seconds 1000)) Timeout False)
       = Some st1_readings"
  by (simp add: old_cache_def clock_at_def seconds_def fetch_weather_data_def cache_get_def
        should_fetch_def fetch_from_api_def fetch_failed_def record_error_def get_stale_data_def
        max_errors_before_backoff_def st1_readings_def Let_def)

text \<open>
  C2, amended.  \<open>get_stale_data\<close> returns the cached data whatever its age: the comparison
  with the stale window is made, and both of its outcomes return the data.  So after a
  failed fetch a previously cached dataset is served at every reading of the clock.
\<close>

theorem stale_data_served_at_any_age:
  "get_stale_data c now = c_data c
   \<and> (fetch_from_api sf ssu resp = None \<and> c_data c = Some d
      \<longrightarrow> returned (fetch_weather_data sf ssu c clk resp force) = Some d)"
  by (simp add: get_stale_data_eq fetch_failure_returned)

theorem stale_data_served_at_any_age_witness:
  "fetch_from_api sf_demo ssu_demo Timeout = None \<and> c_data old_cache = Some st1_readings
   \<and> seconds 1000000 - 0 > stale_ttl old_cache
   \<and> returned (fetch_weather_data sf_demo ssu_demo old_cache (clock_at (seconds 1000000)) Timeout False)
       = Some st1_readings"
  using stale_data_served_at_any_age [of old_cache 0 sf_demo ssu_demo Timeout st1_readings
          "clock_at (seconds 1000000)" False]
  by (simp add: old_cache_def fetch_from_api_def seconds_def)

text \<open>
  C3 fails as stated: after three failed fetches from a cold start the cache is in backoff
  and \<open>should_fetch\<close> is false, yet with nothing cached the next unforced call goes upstream.
\<close>

theorem backoff_cold_cache_counterexample:
  "should_fetch cold_backoff_cache (seconds 3) = False
   \<and> called_api (fetch_weather_data sf_demo ssu_demo cold_backoff_cache (clock_at (seconds 3))
                   (Body (JList st1_readings)) False)
   \<and> returned (fetch_weather_data sf_demo ssu_demo cold_backoff_cache (clock_at (seconds 3))
                   (Body (JList st1_readings)) False) = Some st1_readings"
  by (simp add: cold_backoff_cache_def WeatherCache_init_def clock_at_def seconds_def
        fetch_weather_data_def cache_get_def should_fetch_def fetch_from_api_def
        record_error_def max_errors_before_backoff_def st1_readings_def Let_def
        unwrap_data_def sanitize_reading_def sanitize_field_def float_fields_def
        critical_fields_def ebind_def py_contains_def py_getitem_def py_setitem_def py_float_def)

text \<open>
  C3, amended.  When \<open>should_fetch\<close> is false and the refresh is not forced, a non-empty
  cached list is returned without an upstream call and the cache is left as it was; when
  nothing is cached, the upstream call is made whatever \<open>should_fetch\<close> says.
\<close>

theorem backoff_serves_nonempty_cache:
  "(\<not> should_fetch c (t_should clk) \<and> \<not> force \<and> c_data c = Some d \<and> d \<noteq> []
      \<longrightarrow> fetch_weather_data sf ssu c clk resp force
            = \<lparr> returned = Some d, cache_after = c, called_api = False \<rparr>)
   \<and> (c_data c = None \<longrightarrow> called_api (fetch_weather_data sf ssu c clk resp force))"
  by (auto simp: fetch_weather_data_def cache_get_def fetch_failed_def Let_def
        split: option.splits list.splits)


theorem backoff_serves_nonempty_cache_witness:
  "\<not> should_fetch backoff_cache (t_should (clock_at (seconds 70)))
   \<and> c_data backoff_cache = Some st1_readings \<and> st1_readings \<noteq> []
   \<and> fetch_weather_data sf_demo ssu_demo backoff_cache (clock_at (seconds 70)) Timeout False
       = \<lparr> returned = Some st1_readings, cache_after = backoff_cache, called_api = False \<rparr>
   \<and> c_data cold_backoff_cache = None
   \<and> called_api (fetch_weather_data sf_demo ssu_demo cold_backoff_cache (clock_at (seconds 3))
                   Timeout False)"
proof -
  have h: "\<not> should_fetch backoff_cache (t_should (clock_at (seconds 70)))"
    by (simp add: backoff_cache_def old_cache_def clock_at_def should_fetch_def seconds_def)
  have d: "c_data backoff_cache = Some st1_readings" "st1_readings \<noteq> []"
    by (simp_all add: backoff_cache_def old_cache_def st1_readings_def)
  have n: "c_data cold_backoff_cache = None"
    by (simp add: cold_backoff_cache_def record_error_c_data WeatherCache_init_def)
  show ?thesis
    using h d n
      backoff_serves_nonempty_cache [of backoff_cache "clock_at (seconds 70)" False
        st1_readings sf_demo ssu_demo Timeout]
      backoff_serves_nonempty_cache [of cold_backoff_cache "clock_at (seconds 3)" False
        st1_readings sf_demo ssu_demo Timeout]
    by simp
qed

section \<open>Alert classification and dashboard metrics\<close>

lemma to_float_JFloat: "to_float sf (JFloat x) = Inr (Some x)"
  by (simp add: to_float_def py_float_def)

lemma to_float_opt_float: "to_float sf (opt_float x) = Inr x"
  by (cases x) (simp_all add: opt_float_def to_float_def py_float_def)

lemma get_alert_level_coerced:
  "to_float sf v = Inr (Some a) \<Longrightarrow> get_alert_level sf v = Inr (alert_of a)"
  by (simp add: get_alert_level_def ebind_def alert_of_def)

lemma alert_of_mono: "fle a b \<Longrightarrow> severity (alert_of a) \<le> severity (alert_of b)"
  by (cases a; cases b)
     (auto simp: alert_of_def severity_def fge_def WATER_CRITICAL_def WATER_WARNING_def
        WATER_ALERT_def WATER_ADVISORY_def)

text \<open>
  C5.  \<open>get_alert_level\<close> is monotone: of two inputs that coerce to floats \<open>a \<le> b\<close> (in
  particular of two floats), the second is classified at least as severe as the first.  The
  boundaries are exact (the decimal literals stand for the doubles nearest to them, which
  compare with the thresholds as the decimals do), and \<open>None\<close>, a string that is not a
  number, a list and a dict are classified \<open>normal\<close>.
\<close>

theorem get_alert_level_monotone:
  "(to_float sf u = Inr (Some a) \<and> to_float sf v = Inr (Some b) \<and> fle a b
      \<longrightarrow> (\<exists>x y. get_alert_level sf u = Inr x \<and> get_alert_level sf v = Inr y
                  \<and> severity x \<le> severity y))
   \<and> (fle a b
      \<longrightarrow> (\<exists>x y. get_alert_level sf (JFloat a) = Inr x \<and> get_alert_level sf (JFloat b) = Inr y
                  \<and> severity x \<le> severity y))
   \<and> get_alert_level sf (JFloat (Fin (6999 / 10))) = Inr ''normal''
   \<and> get_alert_level sf (JFloat (Fin 700)) = Inr ''advisory''
   \<and> get_alert_level sf (JFloat (Fin (7999 / 10))) = Inr ''advisory''
   \<and> get_alert_level sf (JFloat (Fin 800)) = Inr ''alert''
   \<and> get_alert_level sf (JFloat (Fin (8999 / 10))) = Inr ''alert''
   \<and> get_alert_level sf (JFloat (Fin 900)) = Inr ''warning''
   \<and> get_alert_level sf (JFloat (Fin (9999 / 10))) = Inr ''warning''
   \<and> get_alert_level sf (JFloat (Fin 1000)) = Inr ''critical''
   \<and> get_alert_level sf JNone = Inr ''normal''
   \<and> (sf t = None \<longrightarrow> get_alert_level sf (JStr t) = Inr ''normal'')
   \<and> get_alert_level sf (JList xs) = Inr ''normal''
   \<and> get_alert_level sf (JDict d) = Inr ''normal''"
proof -
  have mono: "\<And>u v. to_float sf u = Inr (Some a) \<and> to_float sf v = Inr (Some b) \<and> fle a b
      \<longrightarrow> (\<exists>x y. get_alert_level sf u = Inr x \<and> get_alert_level sf v = Inr y
                  \<and> severity x \<le> severity y)"
    by (auto simp: get_alert_level_coerced alert_of_mono)
  have bounds: "get_alert_level sf (JFloat (Fin (6999 / 10))) = Inr ''normal''"
     "get_alert_level sf (JFloat (Fin 700)) = Inr ''advisory''"
     "get_alert_level sf (JFloat (Fin (7999 / 10))) = Inr ''advisory''"
     "get_alert_level sf (JFloat (Fin 800)) = Inr ''alert''"
     "get_alert_level sf (JFloat (Fin (8999 / 10))) = Inr ''alert''"
     "get_alert_level sf (JFloat (Fin 900)) = Inr ''warning''"
     "get_alert_level sf (JFloat (Fin (9999 / 10))) = Inr ''warning''"
     "get_alert_level sf (JFloat (Fin 1000)) = Inr ''critical''"
    by (simp_all add: get_alert_level_coerced [OF to_float_JFloat] alert_of_def fge_def
          WATER_CRITICAL_def WATER_WARNING_def WATER_ALERT_def WATER_ADVISORY_def)
  have others: "get_alert_level sf JNone = Inr ''normal''"
     "sf t = None \<longrightarrow> get_alert_level sf (JStr t) = Inr ''normal''"
     "get_alert_level sf (JList xs) = Inr ''normal''"
     "get_alert_level sf (JDict d) = Inr ''normal''"
    by (simp_all add: get_alert_level_def to_float_def py_float_def ebind_def)
  from mono [of u v] mono [of "JFloat a" "JFloat b"] bounds others show ?thesis
    by (simp only: to_float_JFloat) simp
qed

theorem get_alert_level_monotone_witness:
  "to_float sf_demo (JStr ''0.27'') = Inr (Some (Fin (27 / 100)))
   \<and> to_float sf_demo (JFloat (Fin 1050)) = Inr (Some (Fin 1050))
   \<and> fle (Fin (27 / 100)) (Fin 1050)
   \<and> get_alert_level sf_demo (JStr ''0.27'') = Inr ''normal''
   \<and> get_alert_level sf_demo (JFloat (Fin 1050)) = Inr ''critical''
   \<and> severity ''normal'' \<le> severity ''critical''
   \<and> sf_demo ''n/a'' = None
   \<and> get_alert_level sf_demo (JStr ''n/a'') = Inr ''normal''"
proof -
  have h: "to_float sf_demo (JStr ''0.27'') = Inr (Some (Fin (27 / 100)))"
      "to_float sf_demo (JFloat (Fin 1050)) = Inr (Some (Fin 1050))"
      "fle (Fin (27 / 100)) (Fin 1050)" "sf_demo ''n/a'' = None"
    by (simp_all add: to_float_def py_float_def sf_demo_def)
  have e: "get_alert_level sf_demo (JStr ''0.27'') = Inr ''normal''"
      "get_alert_level sf_demo (JFloat (Fin 1050)) = Inr ''critical''"
    by (simp_all add: get_alert_level_def ebind_def h fge_def WATER_CRITICAL_def WATER_WARNING_def
          WATER_ALERT_def WATER_ADVISORY_def)
  from get_alert_level_monotone [of sf_demo "JStr ''0.27''" "Fin (27 / 100)" "JFloat (Fin 1050)"
         "Fin 1050" "''n/a''"] h e
  show ?thesis by (simp add: severity_def)
qed


lemma parse_station_reading:
  "ts \<noteq> [] \<Longrightarrow>
   metrics_parse_timestamp L (station_reading l ts) = Inr (metrics_parse_str L (JStr ts))"
  by (simp add: metrics_parse_timestamp_def station_reading_def py_get_def py_get_default_def
        ebind_def)

lemma online_station_reading:
  "ts \<noteq> [] \<Longrightarrow> metrics_parse_str L (JStr ts) = Some t \<Longrightarrow> now - t \<le> minutes 60 \<Longrightarrow>
   is_station_online L now (station_reading l ts) = Inr True"
  by (simp add: is_station_online_def parse_station_reading ebind_def
        STATION_OFFLINE_THRESHOLD_MINUTES_def)
     (simp add: station_reading_def)

lemma dash_step_station_reading:
  assumes "ts \<noteq> []" "metrics_parse_str L (JStr ts) = Some t" "now - t \<le> minutes 60"
  shows "dash_step sf L sites now acc (sid, station_reading l ts) =
     Inr (acc\<lparr> online_count := online_count acc + 1,
               alert_counts := (alert_counts acc)
                  (alert_of (Fin l) := alert_counts acc (alert_of (Fin l)) + 1),
               acc_alerts := acc_alerts acc @
                  [\<lparr> sa_station_id = sid, sa_station_name = get_station_name sites sid,
                     sa_alert_level = alert_of (Fin l),
                     sa_water_level = (if l = 0 then Fin 0 else Fin l),
                     sa_is_online = True, sa_last_update = Some t \<rparr>],
               acc_attention := (if alert_of (Fin l) \<in> set [''critical'', ''warning'', ''alert'']
                   then acc_attention acc @ [get_station_name sites sid] else acc_attention acc),
               total_rainfall := fadd (total_rainfall acc) (Fin 0),
               rainfall_readings := rainfall_readings acc + 1 \<rparr>)"
proof -
  have tr: "truthy (station_reading l ts)" by (simp add: station_reading_def)
  have wl: "py_get (station_reading l ts) ''WaterLevel'' = Inr (JFloat (Fin l))"
    and hr: "py_get (station_reading l ts) ''HourlyRain'' = Inr (JFloat (Fin 0))"
    by (simp_all add: station_reading_def py_get_def py_get_default_def)
  have tf: "\<And>x. to_float sf (JFloat x) = Inr (Some x)"
    by (simp add: to_float_def py_float_def)
  have al: "get_alert_level sf (opt_float (Some (Fin l))) = Inr (alert_of (Fin l))"
    by (simp add: opt_float_def get_alert_level_def tf ebind_def alert_of_def)
  show ?thesis
    unfolding dash_step_def
    by (simp add: tr online_station_reading [OF assms] parse_station_reading [OF assms(1)]
          assms(2) wl hr tf al ebind_def Let_def)
qed

lemma alert_of_values:
  "alert_of (Fin 1050) = ''critical''" "alert_of (Fin 950) = ''warning''"
  "alert_of (Fin 850) = ''alert''" "alert_of (Fin 750) = ''advisory''"
  "alert_of (Fin 650) = ''normal''"
  by (simp_all add: alert_of_def fge_def WATER_CRITICAL_def WATER_WARNING_def
        WATER_ALERT_def WATER_ADVISORY_def)

text \<open>
  C8.  For five stations with water levels 1050, 950, 850, 750 and 650 whose timestamps all
  parse to instants at most 60 minutes before \<open>now\<close>, \<open>calculate_dashboard_metrics\<close> returns
  one critical, one warning, one alert and one advisory station, five online sensors, and
  \<open>critical\<close> as the highest alert level.
\<close>

theorem dashboard_five_stations:
  assumes "\<forall>ts \<in> set [ts1, ts2, ts3, ts4, ts5].
             ts \<noteq> [] \<and> (\<exists>t. metrics_parse_str L (JStr ts) = Some t \<and> now - t \<le> minutes 60)"
  shows "\<exists>m. calculate_dashboard_metrics sf L sites now (five_stations ts1 ts2 ts3 ts4 ts5) = Inr m
           \<and> critical_count m = 1 \<and> warning_count m = 1 \<and> alert_count m = 1
           \<and> advisory_count m = 1 \<and> online_sensors m = 5
           \<and> highest_alert_level m = ''critical''"
proof -
  from assms obtain t1 t2 t3 t4 t5 where
    h1: "ts1 \<noteq> []" "metrics_parse_str L (JStr ts1) = Some t1" "now - t1 \<le> minutes 60" and
    h2: "ts2 \<noteq> []" "metrics_parse_str L (JStr ts2) = Some t2" "now - t2 \<le> minutes 60" and
    h3: "ts3 \<noteq> []" "metrics_parse_str L (JStr ts3) = Some t3" "now - t3 \<le> minutes 60" and
    h4: "ts4 \<noteq> []" "metrics_parse_str L (JStr ts4) = Some t4" "now - t4 \<le> minutes 60" and
    h5: "ts5 \<noteq> []" "metrics_parse_str L (JStr ts5) = Some t5" "now - t5 \<le> minutes 60"
    by auto
  show ?thesis
    unfolding calculate_dashboard_metrics_def five_stations_def
    by (simp add: dash_step_station_reading [OF h1] dash_step_station_reading [OF h2]
          dash_step_station_reading [OF h3] dash_step_station_reading [OF h4]
          dash_step_station_reading [OF h5] alert_of_values dash_init_def ebind_def
          fdiv_int_def get_rainfall_forecast_def get_rainfall_level_def to_float_def
          py_float_def)
qed

theorem dashboard_five_stations_witness:
  "metrics_parse_str dtlib_demo (JStr ''2025-01-01 12:00:00'') = Some (hours 12)
   \<and> hours 12 + minutes 30 - hours 12 \<le> minutes 60
   \<and> (\<exists>m. calculate_dashboard_metrics sf_demo dtlib_demo [] (hours 12 + minutes 30)
             (five_stations ''2025-01-01 12:00:00'' ''2025-01-01 12:00:00'' ''2025-01-01 12:00:00''
                ''2025-01-01 12:00:00'' ''2025-01-01 12:00:00'') = Inr m
           \<and> critical_count m = 1 \<and> warning_count m = 1 \<and> alert_count m = 1
           \<and> advisory_count m = 1 \<and> online_sensors m = 5
           \<and> highest_alert_level m = ''critical'')"
proof -
  have p: "metrics_parse_str dtlib_demo (JStr ''2025-01-01 12:00:00'') = Some (hours 12)"
    by (simp add: metrics_parse_str_def dtlib_demo_def py_str_def replace_Z_def split_head_def)
  have a: "hours 12 + minutes 30 - hours 12 \<le> minutes 60"
    by (simp add: minutes_def seconds_def)
  have h: "\<forall>ts \<in> set [''2025-01-01 12:00:00'', ''2025-01-01 12:00:00'', ''2025-01-01 12:00:00'',
                 ''2025-01-01 12:00:00'', ''2025-01-01 12:00:00''].
      ts \<noteq> [] \<and> (\<exists>t. metrics_parse_str dtlib_demo (JStr ts) = Some t
                       \<and> hours 12 + minutes 30 - t \<le> minutes 60)"
    using p a by simp
  from p a dashboard_five_stations [OF h, of sf_demo "[]"] show ?thesis by blast
qed

section \<open>Hourly slots\<close>

lemma hours_add: "hours (a + b) = hours a + hours b"
  by (simp add: hours_def seconds_def algebra_simps)

lemma hours_1_pos: "0 < hours 1"
  by (simp add: hours_def seconds_def)

lemma hours_mult: "hours k = hours 1 * k"
  by (simp add: hours_def seconds_def)

lemma dt_add_Inr: "dt_add dt delta = Inr t \<Longrightarrow> t = dt + delta"
  by (simp add: dt_add_def split: if_splits)

text \<open>When the loop returns, it returns one instant per hour from the first to the last.\<close>

lemma intervals_from_upto:
  "intervals_from cur (cur + hours (int n)) = Inr xs \<Longrightarrow>
   xs = map (\<lambda>k. cur + hours (int k)) [0..<Suc n]"
proof (induction n arbitrary: cur xs)
  case 0
  from "0.prems" obtain nxt rest where
    n: "dt_add cur (hours DATA_INTERVAL_HOURS) = Inr nxt" and
    r: "intervals_from nxt (cur + hours (int 0)) = Inr rest" and x: "xs = cur # rest"
    by (subst (asm) intervals_from.simps)
       (auto simp: hours_def seconds_def split: sum.splits)
  have "nxt = cur + hours 1"
    using dt_add_Inr [OF n] by (simp add: DATA_INTERVAL_HOURS_def)
  with r have "rest = []"
    by (subst (asm) intervals_from.simps) (simp add: hours_def seconds_def)
  with x show ?case by (simp add: hours_def seconds_def)
next
  case (Suc n)
  have le: "cur \<le> cur + hours (int (Suc n))"
    unfolding hours_def seconds_def by simp
  from Suc.prems obtain nxt rest where
    n: "dt_add cur (hours DATA_INTERVAL_HOURS) = Inr nxt" and
    r: "intervals_from nxt (cur + hours (int (Suc n))) = Inr rest" and x: "xs = cur # rest"
    by (subst (asm) intervals_from.simps) (auto simp only: le if_True split: sum.splits)
  have nx: "nxt = cur + hours 1"
    using dt_add_Inr [OF n] by (simp add: DATA_INTERVAL_HOURS_def)
  have e: "cur + hours (int (Suc n)) = nxt + hours (int n)"
    by (simp add: nx hours_def seconds_def algebra_simps)
  from r have "rest = map (\<lambda>k. nxt + hours (int k)) [0..<Suc n]"
    unfolding e by (rule Suc.IH)
  then have "rest = map (\<lambda>k. cur + hours (int (Suc k))) [0..<Suc n]"
    by (simp add: nx hours_def seconds_def algebra_simps)
  moreover have "map (\<lambda>k. cur + hours (int k)) [0..<Suc (Suc n)]
            = (cur + hours 0) # map (\<lambda>k. cur + hours (int (Suc k))) [0..<Suc n]"
    by (simp only: upt_conv_Cons [of 0 "Suc (Suc n)"] map_Suc_upt [symmetric] list.map map_map o_def)
       simp
  ultimately show ?case
    using x by (simp add: hours_def seconds_def)
qed

text \<open>It returns whenever the hour after the last instant is within the calendar.\<close>

lemma intervals_from_returns:
  "DATETIME_MIN \<le> cur \<Longrightarrow> cur + hours (int n) + hours 1 \<le> DATETIME_MAX \<Longrightarrow>
   intervals_from cur (cur + hours (int n)) = Inr (map (\<lambda>k. cur + hours (int k)) [0..<Suc n])"
proof (induction n arbitrary: cur)
  case 0
  have a: "dt_add cur (hours DATA_INTERVAL_HOURS) = Inr (cur + hours 1)"
    using "0.prems" by (simp add: dt_add_def DATA_INTERVAL_HOURS_def hours_def seconds_def)
  have b: "intervals_from (cur + hours 1) (cur + hours (int 0)) = Inr []"
    by (subst intervals_from.simps) (simp add: hours_def seconds_def)
  have c: "cur \<le> cur + hours (int 0)"
    by (simp add: hours_def seconds_def)
  have m: "map (\<lambda>k. cur + hours (int k)) [0..<Suc 0] = [cur]"
    by (simp add: hours_def seconds_def)
  show ?case
    unfolding m
    by (subst intervals_from.simps) (simp only: c if_True a b sum.case)
next
  case (Suc n)
  have le: "cur \<le> cur + hours (int (Suc n))"
    unfolding hours_def seconds_def by simp
  have a: "dt_add cur (hours DATA_INTERVAL_HOURS) = Inr (cur + hours 1)"
    using Suc.prems by (simp add: dt_add_def DATA_INTERVAL_HOURS_def hours_def seconds_def)
  have e: "cur + hours (int (Suc n)) = (cur + hours 1) + hours (int n)"
    by (simp add: hours_def seconds_def algebra_simps)
  have "intervals_from (cur + hours 1) ((cur + hours 1) + hours (int n))
          = Inr (map (\<lambda>k. (cur + hours 1) + hours (int k)) [0..<Suc n])"
    using Suc.prems by (intro Suc.IH) (simp_all add: hours_def seconds_def)
  then have b: "intervals_from (cur + hours 1) (cur + hours (int (Suc n)))
          = Inr (map (\<lambda>k. cur + hours (int (Suc k))) [0..<Suc n])"
    unfolding e by (simp add: hours_def seconds_def algebra_simps)
  have m: "map (\<lambda>k. cur + hours (int k)) [0..<Suc (Suc n)]
            = cur # map (\<lambda>k. cur + hours (int (Suc k))) [0..<Suc n]"
    by (simp only: upt_conv_Cons [of 0 "Suc (Suc n)"] map_Suc_upt [symmetric] list.map map_map o_def)
       (simp add: hours_def seconds_def)
  show ?case
    unfolding m
    by (subst intervals_from.simps) (simp only: le if_True a b sum.case)
qed

lemma day_intervals:
  "create_hourly_intervals start_time (start_time + hours 23) = Inr intervals \<Longrightarrow>
   intervals = map (\<lambda>k. start_time + hours (int k)) [0..<24]"
  using intervals_from_upto [of start_time 23]
  by (auto simp: create_hourly_intervals_def ebind_def split: sum.splits if_splits)

lemma day_intervals_return:
  "DATETIME_MIN \<le> start_time \<Longrightarrow> start_time + hours 24 \<le> DATETIME_MAX \<Longrightarrow>
   create_hourly_intervals start_time (start_time + hours 23)
     = Inr (map (\<lambda>k. start_time + hours (int k)) [0..<24])"
proof -
  assume a: "DATETIME_MIN \<le> start_time" and b: "start_time + hours 24 \<le> DATETIME_MAX"
  have "start_time + hours (int 23) + hours 1 \<le> DATETIME_MAX"
    using b by (simp add: hours_def seconds_def)
  from intervals_from_returns [OF a this] show ?thesis
    by (simp add: create_hourly_intervals_def ebind_def upt_conv_Cons [of 0 24])
qed

text \<open>It raises when that hour is beyond the calendar, as on 9999-12-31.\<close>

lemma intervals_from_overflow:
  "DATETIME_MAX < cur + hours (int n) + hours 1 \<Longrightarrow>
   intervals_from cur (cur + hours (int n)) = Inl OverflowError"
proof (induction n arbitrary: cur)
  case 0
  then have "dt_add cur (hours DATA_INTERVAL_HOURS) = Inl OverflowError"
    by (simp add: dt_add_def DATA_INTERVAL_HOURS_def hours_def seconds_def)
  then show ?case
    by (subst intervals_from.simps) (simp add: hours_def seconds_def)
next
  case (Suc n)
  have le: "cur \<le> cur + hours (int (Suc n))"
    unfolding hours_def seconds_def by simp
  show ?case
  proof (cases "dt_add cur (hours DATA_INTERVAL_HOURS)")
    case (Inl e)
    then have "e = OverflowError" by (simp add: dt_add_def split: if_splits)
    with Inl show ?thesis
      by (subst intervals_from.simps) (simp only: le if_True sum.case)
  next
    case (Inr nxt)
    have nx: "nxt = cur + hours 1"
      using dt_add_Inr [OF Inr] by (simp add: DATA_INTERVAL_HOURS_def)
    have e: "cur + hours (int (Suc n)) = nxt + hours (int n)"
      by (simp add: nx hours_def seconds_def algebra_simps)
    have "DATETIME_MAX < nxt + hours (int n) + hours 1"
      using Suc.prems unfolding e .
    then have "intervals_from nxt (nxt + hours (int n)) = Inl OverflowError"
      by (rule Suc.IH)
    then have r: "intervals_from nxt (cur + hours (int (Suc n))) = Inl OverflowError"
      unfolding e .
    show ?thesis
      by (subst intervals_from.simps) (simp only: le if_True Inr r sum.case)
  qed
qed

lemma last_day_overflow:
  "DATETIME_MAX < start_time + hours 24 \<Longrightarrow>
   create_hourly_intervals start_time (start_time + hours 23) = Inl OverflowError"
proof -
  assume "DATETIME_MAX < start_time + hours 24"
  then have "DATETIME_MAX < start_time + hours (int 23) + hours 1"
    by (simp add: hours_def seconds_def)
  from intervals_from_overflow [OF this] show ?thesis
    by (simp add: create_hourly_intervals_def ebind_def)
qed

lemma find_interval_slot:
  assumes "k < n" "0 \<le> d" "d < hours 1"
  shows "find_interval (map (\<lambda>k. s + hours (int k)) [0..<n]) (s + hours (int k) + d)
           = Some (s + hours (int k))"
  unfolding find_interval_def find_Some_iff
proof (intro exI [of _ k] conjI allI impI)
  show "k < length (map (\<lambda>k. s + hours (int k)) [0..<n])" using assms by simp
  show "map (\<lambda>k. s + hours (int k)) [0..<n] ! k \<le> s + hours (int k) + d"
    using assms by simp
  show "s + hours (int k) + d < map (\<lambda>k. s + hours (int k)) [0..<n] ! k + hours 1"
    using assms by simp
  show "s + hours (int k) = map (\<lambda>k. s + hours (int k)) [0..<n] ! k" using assms by simp
next
  fix j assume j: "j < k"
  then have "j < n" using assms by simp
  then have nth: "map (\<lambda>k. s + hours (int k)) [0..<n] ! j = s + hours (int j)" by simp
  have "int j + 1 \<le> int k" using j by simp
  then have "hours (int j) + hours 1 \<le> hours (int k)"
    by (simp add: hours_def seconds_def)
  then show "\<not> (map (\<lambda>k. s + hours (int k)) [0..<n] ! j \<le> s + hours (int k) + d
              \<and> s + hours (int k) + d < map (\<lambda>k. s + hours (int k)) [0..<n] ! j + hours 1)"
    unfolding nth using assms by simp
qed

lemma find_interval_past_end:
  assumes "s + hours (int n) \<le> p"
  shows "find_interval (map (\<lambda>k. s + hours (int k)) [0..<n]) p = None"
  unfolding find_interval_def find_None_iff
proof
  assume "\<exists>x. x \<in> set (map (\<lambda>k. s + hours (int k)) [0..<n]) \<and> x \<le> p \<and> p < x + hours 1"
  then obtain j where j: "j < n" and lt: "p < s + hours (int j) + hours 1" by auto
  have "int j + 1 \<le> int n" using j by simp
  then have "hours (int j) + hours 1 \<le> hours (int n)"
    by (simp add: hours_def seconds_def)
  with lt assms show False by simp
qed


lemma py_float_not_None: "py_float sf v = Inr x \<Longrightarrow> v \<noteq> JNone"
  by (auto simp: py_float_def)

lemma py_float_cases:
  "py_float sf v = Inl e \<Longrightarrow> e = ValueError \<or> e = TypeError \<or> e = OverflowError"
  by (auto simp: py_float_def split: json.splits if_splits option.splits)

text \<open>
  C7.  Over the 24 slots that \<open>_create_hourly_intervals\<close> returns for a day, a reading whose
  parsed instant lies \<open>d\<close> after the start of slot \<open>k\<close>, with \<open>0 \<le> d < 1 hour\<close>, and which
  has a station id and an accepted value is appended to slot \<open>k\<close> of its station and to no
  other bucket.  With \<open>d = 0\<close> the instant is the boundary between slot \<open>k - 1\<close> and slot
  \<open>k\<close>, and the reading goes to the later one: a slot contains its lower bound and not its
  upper bound.
\<close>

theorem slot_is_half_open:
  assumes "create_hourly_intervals start_time (start_time + hours 23) = Inr intervals"
    and "timestamp_field reading = Inr ts"
    and "parse_timestamp L ts = Inr (Some (start_time + hours (int k) + d))"
    and "k < 24" and "0 \<le> d" and "d < hours 1"
    and "py_get reading ''StationID'' = Inr station_id"
    and "truthy station_id" and "hashable station_id"
    and "py_get reading (metric_field S) = Inr v"
    and "py_float sf v = Inr x" and "valid_value S x"
  shows "group_step S sf L intervals start_time (start_time + hours 23) g reading
         = Inr (g(station_id := (g station_id)
                  (start_time + hours (int k) :=
                     g station_id (start_time + hours (int k)) @ [x])))"
proof -
  have i: "intervals = map (\<lambda>k. start_time + hours (int k)) [0..<24]"
    using assms(1) by (rule day_intervals)
  have r: "in_time_range start_time (start_time + hours 23) (start_time + hours (int k) + d)"
    using assms(4,5,6) by (simp add: in_time_range_def hours_def seconds_def)
  have f: "find_interval intervals (start_time + hours (int k) + d)
             = Some (start_time + hours (int k))"
    unfolding i using assms(4,5,6) by (rule find_interval_slot)
  show ?thesis
    by (simp add: group_step_def group_body_def ebind_def assms(2,3,7,8,9,10,11,12) r f
          py_float_not_None [OF assms(11)])
qed

text \<open>
  C10.  A reading whose parsed instant is the end of the last slot (the start of slot 23
  plus one hour) passes the inclusive test of the time range, matches none of the slots
  that \<open>_create_hourly_intervals\<close> returned, and leaves the grouped values as they were; the
  loop goes on with the remaining readings.
\<close>

theorem end_of_day_reading_dropped:
  assumes "timestamp_field reading = Inr ts"
    and "parse_timestamp L ts = Inr (Some (end_time + hours 1))"
    and "end_time = start_time + hours 23"
    and "create_hourly_intervals start_time end_time = Inr intervals"
    and "py_get reading (metric_field S) = Inr v"
    and "py_float sf v \<noteq> Inl OverflowError"
  shows "in_time_range start_time end_time (end_time + hours 1)
       \<and> find_interval intervals (end_time + hours 1) = None
       \<and> group_step S sf L intervals start_time end_time g reading = Inr g
       \<and> group_loop S sf L intervals start_time end_time g (reading # rest)
           = group_loop S sf L intervals start_time end_time g rest"
proof -
  have i: "intervals = map (\<lambda>k. start_time + hours (int k)) [0..<24]"
    using assms(4) unfolding assms(3) by (rule day_intervals)
  have r: "in_time_range start_time end_time (end_time + hours 1)"
    by (simp add: in_time_range_def assms(3) hours_def seconds_def)
  have "start_time + hours (int 24) \<le> end_time + hours 1"
    by (simp add: assms(3) hours_def seconds_def)
  then have f: "find_interval intervals (end_time + hours 1) = None"
    unfolding i by (rule find_interval_past_end)
  obtain sid where sid: "py_get reading ''StationID'' = Inr sid"
    using assms(5) by (auto simp: py_get_def py_get_default_def split: json.splits)
  have e: "\<And>e. py_float sf v = Inl e \<Longrightarrow> e = ValueError \<or> e = TypeError"
    using assms(6) py_float_cases by blast
  have s: "group_step S sf L intervals start_time end_time g reading = Inr g"
  proof (cases "py_float sf v")
    case (Inl err)
    with e [OF Inl] show ?thesis
      by (auto simp: group_step_def group_body_def ebind_def assms(1,2,5) r sid)
  next
    case (Inr x)
    then show ?thesis
      by (simp add: group_step_def group_body_def ebind_def assms(1,2,5) r f sid)
  qed
  from r f s show ?thesis by (simp add: ebind_def)
qed

lemma day_slots_created:
  "create_hourly_intervals 0 (0 + hours 23) = Inr day_slots"
proof -
  have "DATETIME_MIN \<le> 0" and "0 + hours 24 \<le> DATETIME_MAX"
    by (simp_all add: DATETIME_MIN_def DATETIME_MAX_def hours_def seconds_def)
  from day_intervals_return [OF this] show ?thesis
    by (simp add: day_slots_def)
qed

theorem slot_is_half_open_witness:
  "create_hourly_intervals 0 (0 + hours 23) = Inr day_slots
   \<and> timestamp_field noon_reading = Inr (JStr ''2025-01-01 12:00:00'')
   \<and> parse_timestamp dtlib_demo (JStr ''2025-01-01 12:00:00'') = Inr (Some (0 + hours (int 12) + 0))
   \<and> py_get noon_reading ''StationID'' = Inr (JStr ''St1'')
   \<and> py_get noon_reading (metric_field WaterLevelService) = Inr (JFloat (Fin 2))
   \<and> py_float sf_demo (JFloat (Fin 2)) = Inr (Fin 2)
   \<and> valid_value WaterLevelService (Fin 2)
   \<and> group_step WaterLevelService sf_demo dtlib_demo day_slots 0 (0 + hours 23)
         no_readings noon_reading
       = Inr (no_readings(JStr ''St1'' := (no_readings (JStr ''St1''))
                (0 + hours (int 12) := no_readings (JStr ''St1'') (0 + hours (int 12)) @ [Fin 2])))"
proof -
  have a0: "create_hourly_intervals 0 (0 + hours 23) = Inr day_slots"
    by (rule day_slots_created)
  have a1: "timestamp_field noon_reading = Inr (JStr ''2025-01-01 12:00:00'')"
    by (simp add: timestamp_field_def noon_reading_def py_get_def py_get_default_def ebind_def)
  have a2: "parse_timestamp dtlib_demo (JStr ''2025-01-01 12:00:00'')
              = Inr (Some (0 + hours (int 12) + 0))"
    by (simp add: parse_timestamp_def dtlib_demo_def)
  have a3: "py_get noon_reading ''StationID'' = Inr (JStr ''St1'')"
    by (simp add: noon_reading_def py_get_def py_get_default_def)
  have a4: "py_get noon_reading (metric_field WaterLevelService) = Inr (JFloat (Fin 2))"
    by (simp add: noon_reading_def py_get_def py_get_default_def WaterLevelService_def)
  have a5: "py_float sf_demo (JFloat (Fin 2)) = Inr (Fin 2)"
    by (simp add: py_float_def)
  have a6: "valid_value WaterLevelService (Fin 2)"
    by (simp add: WaterLevelService_def MIN_VALID_WATER_LEVEL_def MAX_VALID_WATER_LEVEL_def)
  have k: "(12::nat) < 24" and d: "(0::int) \<le> 0" "(0::int) < hours 1"
    by (simp_all add: hours_def seconds_def)
  have t: "truthy (JStr ''St1'')" and h: "hashable (JStr ''St1'')" by simp_all
  note w = slot_is_half_open [OF a0 a1 a2 k d a3 t h a4 a5 a6, of no_readings]
  from a0 a1 a2 a3 a4 a5 a6 w show ?thesis by blast
qed

theorem end_of_day_reading_dropped_witness:
  "timestamp_field midnight_reading = Inr (JStr ''2025-01-02 00:00:00'')
   \<and> parse_timestamp dtlib_demo (JStr ''2025-01-02 00:00:00'') = Inr (Some (0 + hours 23 + hours 1))
   \<and> create_hourly_intervals 0 (0 + hours 23) = Inr day_slots
   \<and> py_get midnight_reading (metric_field PrecipitationService) = Inr (JFloat (Fin 4))
   \<and> py_float sf_demo (JFloat (Fin 4)) \<noteq> Inl OverflowError
   \<and> in_time_range 0 (0 + hours 23) (0 + hours 23 + hours 1)
   \<and> find_interval day_slots (0 + hours 23 + hours 1) = None
   \<and> group_step PrecipitationService sf_demo dtlib_demo day_slots 0 (0 + hours 23)
         no_readings midnight_reading = Inr no_readings
   \<and> group_loop PrecipitationService sf_demo dtlib_demo day_slots 0 (0 + hours 23)
         no_readings [midnight_reading, noon_reading]
       = group_loop PrecipitationService sf_demo dtlib_demo day_slots 0 (0 + hours 23)
           no_readings [noon_reading]"
proof -
  have a1: "timestamp_field midnight_reading = Inr (JStr ''2025-01-02 00:00:00'')"
    by (simp add: timestamp_field_def midnight_reading_def py_get_def py_get_default_def ebind_def)
  have a2: "parse_timestamp dtlib_demo (JStr ''2025-01-02 00:00:00'')
              = Inr (Some (0 + hours 23 + hours 1))"
    by (simp add: parse_timestamp_def dtlib_demo_def hours_def seconds_def)
  have a3: "0 + hours 23 = 0 + hours 23" by simp
  have a0: "create_hourly_intervals 0 (0 + hours 23) = Inr day_slots"
    by (rule day_slots_created)
  have a4: "py_get midnight_reading (metric_field PrecipitationService) = Inr (JFloat (Fin 4))"
    by (simp add: midnight_reading_def py_get_def py_get_default_def PrecipitationService_def)
  have a5: "py_float sf_demo (JFloat (Fin 4)) \<noteq> Inl OverflowError"
    by (simp add: py_float_def)
  note w = end_of_day_reading_dropped [OF a1 a2 a3 a0 a4 a5, of no_readings "[noon_reading]"]
  from a1 a2 a0 a4 a5 w show ?thesis by blast
qed

section \<open>The 24 slots of every station\<close>

lemma plain_reading_dict:
  assumes "plain_reading S reading"
  obtains d where "reading = JDict d"
  using assms by (cases reading) (simp_all add: plain_reading_def)

lemma plain_parse:
  assumes "plain_reading S reading"
  shows "\<exists>ts p. timestamp_field reading = Inr ts \<and> parse_timestamp L ts = Inr p"
proof -
  from assms obtain d where d: "reading = JDict d" by (rule plain_reading_dict)
  from assms d obtain ts where ts: "timestamp_field reading = Inr ts" "\<not> truthy ts \<or> is_str ts"
    by (auto simp: plain_reading_def split: sum.splits)
  have "\<exists>p. parse_timestamp L ts = Inr p"
    using ts(2) by (cases ts) (auto simp: parse_timestamp_def split: option.splits)
  with ts(1) show ?thesis by blast
qed

lemma latest_timestamp_total:
  "\<forall>r \<in> set ws. plain_reading S r \<Longrightarrow> \<exists>l. latest_timestamp L latest ws = Inr l"
proof (induction ws arbitrary: latest)
  case Nil
  show ?case by simp
next
  case (Cons r ws)
  then have "plain_reading S r" and rest: "\<forall>r \<in> set ws. plain_reading S r" by simp_all
  then obtain ts p where tp: "timestamp_field r = Inr ts" "parse_timestamp L ts = Inr p"
    using plain_parse by blast
  show ?case
    using Cons.IH [OF rest]
    by (cases p; cases latest) (simp_all add: tp ebind_def)
qed

lemma display_date_total:
  "\<forall>r \<in> set ws. plain_reading S r \<Longrightarrow> \<exists>d. display_date_of L now ws target_date = Inr d"
  using latest_timestamp_total [of ws S L None]
  by (cases target_date) (auto simp: display_date_of_def ebind_def split: option.splits)

lemma group_step_total:
  assumes "plain_reading S reading"
  shows "\<exists>g'. group_step S sf L intervals start_time end_time g reading = Inr g'"
proof -
  from assms obtain d where d: "reading = JDict d" by (rule plain_reading_dict)
  obtain ts p where tp: "timestamp_field reading = Inr ts" "parse_timestamp L ts = Inr p"
    using plain_parse [OF assms] by blast
  have sid: "py_get reading ''StationID'' = Inr (case map_of d ''StationID'' of None \<Rightarrow> JNone | Some x \<Rightarrow> x)"
    and val: "py_get reading (metric_field S) = Inr (case map_of d (metric_field S) of None \<Rightarrow> JNone | Some x \<Rightarrow> x)"
    by (simp_all add: d py_get_def py_get_default_def)
  define station_id where "station_id = (case map_of d ''StationID'' of None \<Rightarrow> JNone | Some x \<Rightarrow> x)"
  define v where "v = (case map_of d (metric_field S) of None \<Rightarrow> JNone | Some x \<Rightarrow> x)"
  have h: "hashable station_id"
    using assms by (auto simp: plain_reading_def d station_id_def split: option.splits)
  have no: "py_float sf v \<noteq> Inl OverflowError"
    using assms
    by (auto simp: plain_reading_def d v_def py_float_def split: option.splits json.splits)
  show ?thesis
  proof (cases "py_float sf v")
    case (Inl e)
    with no py_float_cases [OF Inl] have "e = ValueError \<or> e = TypeError" by auto
    with Inl show ?thesis
      unfolding group_step_def group_body_def
      by (cases p)
         (auto simp: tp sid val ebind_def station_id_def [symmetric] v_def [symmetric])
  next
    case (Inr x)
    then show ?thesis
      unfolding group_step_def group_body_def
      by (cases p; cases "find_interval intervals (the p)")
         (auto simp: tp sid val ebind_def station_id_def [symmetric] v_def [symmetric] h)
  qed
qed

lemma group_loop_total:
  "\<forall>r \<in> set ws. plain_reading S r \<Longrightarrow>
   \<exists>g'. group_loop S sf L intervals start_time end_time g ws = Inr g'"
proof (induction ws arbitrary: g)
  case Nil
  show ?case by simp
next
  case (Cons r ws)
  then have "plain_reading S r" and rest: "\<forall>r \<in> set ws. plain_reading S r" by simp_all
  then obtain g1 where "group_step S sf L intervals start_time end_time g r = Inr g1"
    using group_step_total by blast
  with Cons.IH [OF rest, of g1] show ?case by (simp add: ebind_def)
qed


lemma to_float_num:
  "to_float sf (JFloat q) = Inr (Some q)" "to_float sf (JInt 0) = Inr (Some (Fin 0))"
  by (simp_all add: to_float_def py_float_def)

lemma classify_avg:
  assumes "S = WaterLevelService \<or> S = PrecipitationService"
  shows "\<exists>c. classify S sf (JFloat q) = Inr c"
    and "S = WaterLevelService \<Longrightarrow> classify S sf (JInt 0) = Inr ''normal''"
    and "S = PrecipitationService \<Longrightarrow> classify S sf (JInt 0) = Inr ''none''"
  using assms
  by (auto simp: WaterLevelService_def PrecipitationService_def get_alert_level_def
        get_rainfall_level_def to_float_num ebind_def fge_def WATER_CRITICAL_def
        WATER_WARNING_def WATER_ALERT_def WATER_ADVISORY_def RAINFALL_HEAVY_def
        RAINFALL_MODERATE_def RAINFALL_LIGHT_def)

lemma average_cases:
  "average [] = Inr (JInt 0)" "vs \<noteq> [] \<Longrightarrow> \<exists>q. average vs = Inr (JFloat q)"
  by (simp_all add: average_def fdiv_int_def ebind_def)

lemma services_distinct:
  "WaterLevelService \<noteq> PrecipitationService" "PrecipitationService \<noteq> WaterLevelService"
proof -
  have "metric_field WaterLevelService \<noteq> metric_field PrecipitationService"
    by (simp add: WaterLevelService_def PrecipitationService_def)
  then show "WaterLevelService \<noteq> PrecipitationService"
    and "PrecipitationService \<noteq> WaterLevelService" by auto
qed

lemma format_point_slot:
  assumes "S = WaterLevelService \<or> S = PrecipitationService"
  shows "\<exists>p. format_point S sf interval_data display_date interval_time = Inr p
             \<and> slot_ok S interval_data interval_time p"
proof (cases "interval_data interval_time = []")
  case True
  from assms show ?thesis
    by (auto simp: format_point_def True average_cases(1) ebind_def classify_avg(2,3)
          slot_ok_def py_round_def services_distinct)
next
  case False
  then obtain q where q: "average (interval_data interval_time) = Inr (JFloat q)"
    using average_cases(2) by blast
  obtain c where c: "classify S sf (JFloat q) = Inr c"
    using classify_avg(1) [OF assms] by blast
  show ?thesis
    using False by (simp add: format_point_def q c ebind_def slot_ok_def Let_def)
qed

lemma format_interval_data_slots:
  assumes "S = WaterLevelService \<or> S = PrecipitationService"
  shows "\<exists>ps. format_interval_data_with_labels S sf intervals interval_data display_date = Inr ps
              \<and> list_all2 (slot_ok S interval_data) intervals ps"
proof (induction intervals)
  case Nil
  show ?case by simp
next
  case (Cons i intervals)
  obtain p where p: "format_point S sf interval_data display_date i = Inr p"
      "slot_ok S interval_data i p"
    using format_point_slot [OF assms] by blast
  from Cons.IH obtain ps where
    ps: "format_interval_data_with_labels S sf intervals interval_data display_date = Inr ps"
        "list_all2 (slot_ok S interval_data) intervals ps"
    by blast
  show ?case by (simp add: p ps ebind_def)
qed

lemma format_sites_slots:
  assumes "S = WaterLevelService \<or> S = PrecipitationService"
    and "\<forall>sid slots. map_of result sid = Some slots
           \<longrightarrow> list_all2 (slot_ok S (g (JStr sid))) intervals slots"
  shows "\<exists>res. format_sites S sf intervals g display_date result sites = Inr res
               \<and> (\<forall>sid slots. map_of res sid = Some slots
                     \<longrightarrow> list_all2 (slot_ok S (g (JStr sid))) intervals slots)
               \<and> (\<forall>sid \<in> fst ` set sites. map_of res sid \<noteq> None)
               \<and> (\<forall>sid. map_of result sid \<noteq> None \<longrightarrow> map_of res sid \<noteq> None)"
  using assms(2)
proof (induction sites arbitrary: result)
  case Nil
  then show ?case by simp
next
  case (Cons site sites)
  obtain station_id name where site: "site = (station_id, name)" by (cases site)
  obtain ps where
    ps: "format_interval_data_with_labels S sf intervals (g (JStr station_id)) display_date = Inr ps"
        "list_all2 (slot_ok S (g (JStr station_id))) intervals ps"
    using format_interval_data_slots [OF assms(1)] by blast
  have inv: "\<forall>sid slots. map_of (AList.update station_id ps result) sid = Some slots
               \<longrightarrow> list_all2 (slot_ok S (g (JStr sid))) intervals slots"
    using Cons.prems ps(2) by (auto simp: update_conv')
  from Cons.IH [OF inv] obtain res where
    res: "format_sites S sf intervals g display_date (AList.update station_id ps result) sites = Inr res"
         "\<forall>sid slots. map_of res sid = Some slots
            \<longrightarrow> list_all2 (slot_ok S (g (JStr sid))) intervals slots"
         "\<forall>sid \<in> fst ` set sites. map_of res sid \<noteq> None"
         "\<forall>sid. map_of (AList.update station_id ps result) sid \<noteq> None \<longrightarrow> map_of res sid \<noteq> None"
    by blast
  have "map_of res station_id \<noteq> None"
    using res(4) by (simp add: update_conv')
  moreover have "\<forall>sid. map_of result sid \<noteq> None \<longrightarrow> map_of res sid \<noteq> None"
    using res(4) by (auto simp: update_conv')
  ultimately show ?case
    using res(1,2,3) by (auto simp: site ps(1) ebind_def)
qed

lemma at_hour_end: "at_hour d END_HOUR = at_hour d START_HOUR + hours 23"
  by (simp add: at_hour_def END_HOUR_def START_HOUR_def hours_def seconds_def)

text \<open>
  C6, amended.  Whenever the display date is found, \<open>_create_hourly_intervals\<close> returns and
  the grouping of the readings returns, the aggregation of either service returns, and for
  every configured site it holds exactly 24 slots, slot \<open>k\<close> being that of hour \<open>k\<close> of the
  display day.  The count of a slot is the number of values grouped under its station and
  hour; a slot without any has count 0, the value 0 and the category of the value 0, which
  is \<open>normal\<close> for the water level and \<open>none\<close> for precipitation.
\<close>

theorem aggregation_returns_24_slots:
  assumes "S = WaterLevelService \<or> S = PrecipitationService"
    and "display_date_of L now weather_data target_date = Inr display_date"
    and "create_hourly_intervals (at_hour display_date START_HOUR)
           (at_hour display_date END_HOUR) = Inr intervals"
    and "group_readings_by_station_and_interval S sf L weather_data intervals
           (at_hour display_date START_HOUR) (at_hour display_date END_HOUR)
           = Inr station_interval_data"
  shows "\<exists>res. get_24hour_intervals_per_station S sf L now weather_data sites target_date = Inr res
           \<and> (\<forall>sid \<in> fst ` set sites.
                 \<exists>slots. map_of res sid = Some slots \<and> length slots = 24
                   \<and> (\<forall>k < 24.
                         dp_timestamp (slots ! k) = at_hour display_date START_HOUR + hours (int k)
                         \<and> dp_count (slots ! k)
                             = length (station_interval_data (JStr sid)
                                         (at_hour display_date START_HOUR + hours (int k)))
                         \<and> (station_interval_data (JStr sid)
                               (at_hour display_date START_HOUR + hours (int k)) = []
                            \<longrightarrow> dp_count (slots ! k) = 0
                                \<and> dp_y (slots ! k) = JInt 0
                                \<and> (S = WaterLevelService \<longrightarrow> dp_category (slots ! k) = ''normal'')
                                \<and> (S = PrecipitationService
                                     \<longrightarrow> dp_category (slots ! k) = ''none''))))"
proof -
  define start where "start = at_hour display_date START_HOUR"
  have i: "intervals = map (\<lambda>k. start + hours (int k)) [0..<24]"
    using assms(3) unfolding at_hour_end start_def [symmetric] by (rule day_intervals)
  have len: "length intervals = 24" by (simp add: i)
  have nth: "\<And>k. k < 24 \<Longrightarrow> intervals ! k = start + hours (int k)"
    by (simp add: i)
  have "\<forall>sid slots. map_of ([] :: (string \<times> datapoint list) list) sid = Some slots
          \<longrightarrow> list_all2 (slot_ok S (station_interval_data (JStr sid))) intervals slots"
    by simp
  from format_sites_slots [OF assms(1) this] obtain res where
    res: "format_sites S sf intervals station_interval_data display_date [] sites = Inr res"
         "\<forall>sid slots. map_of res sid = Some slots
            \<longrightarrow> list_all2 (slot_ok S (station_interval_data (JStr sid))) intervals slots"
         "\<forall>sid \<in> fst ` set sites. map_of res sid \<noteq> None"
    by blast
  have run: "get_24hour_intervals_per_station S sf L now weather_data sites target_date = Inr res"
    by (simp add: get_24hour_intervals_per_station_def assms(2,3,4) res(1) ebind_def Let_def)
  have "\<forall>sid \<in> fst ` set sites.
          \<exists>slots. map_of res sid = Some slots \<and> length slots = 24
            \<and> (\<forall>k < 24.
                  dp_timestamp (slots ! k) = start + hours (int k)
                  \<and> dp_count (slots ! k)
                      = length (station_interval_data (JStr sid) (start + hours (int k)))
                  \<and> (station_interval_data (JStr sid) (start + hours (int k)) = []
                     \<longrightarrow> dp_count (slots ! k) = 0
                         \<and> dp_y (slots ! k) = JInt 0
                         \<and> (S = WaterLevelService \<longrightarrow> dp_category (slots ! k) = ''normal'')
                         \<and> (S = PrecipitationService \<longrightarrow> dp_category (slots ! k) = ''none'')))"
  proof
    fix sid assume "sid \<in> fst ` set sites"
    with res(3) obtain slots where s: "map_of res sid = Some slots" by auto
    with res(2) have all2: "list_all2 (slot_ok S (station_interval_data (JStr sid))) intervals slots"
      by simp
    then have l: "length slots = 24" using len by (simp add: list_all2_lengthD [symmetric])
    have "\<forall>k < 24.
            dp_timestamp (slots ! k) = start + hours (int k)
            \<and> dp_count (slots ! k)
                = length (station_interval_data (JStr sid) (start + hours (int k)))
            \<and> (station_interval_data (JStr sid) (start + hours (int k)) = []
               \<longrightarrow> dp_count (slots ! k) = 0
                   \<and> dp_y (slots ! k) = JInt 0
                   \<and> (S = WaterLevelService \<longrightarrow> dp_category (slots ! k) = ''normal'')
                   \<and> (S = PrecipitationService \<longrightarrow> dp_category (slots ! k) = ''none''))"
    proof (intro allI impI)
      fix k :: nat assume k: "k < 24"
      then have "slot_ok S (station_interval_data (JStr sid)) (intervals ! k) (slots ! k)"
        using all2 len by (simp add: list_all2_nthD)
      then show "dp_timestamp (slots ! k) = start + hours (int k)
            \<and> dp_count (slots ! k)
                = length (station_interval_data (JStr sid) (start + hours (int k)))
            \<and> (station_interval_data (JStr sid) (start + hours (int k)) = []
               \<longrightarrow> dp_count (slots ! k) = 0
                   \<and> dp_y (slots ! k) = JInt 0
                   \<and> (S = WaterLevelService \<longrightarrow> dp_category (slots ! k) = ''normal'')
                   \<and> (S = PrecipitationService \<longrightarrow> dp_category (slots ! k) = ''none''))"
        unfolding nth [OF k] by (simp add: slot_ok_def)
    qed
    with s l show "\<exists>slots. map_of res sid = Some slots \<and> length slots = 24
            \<and> (\<forall>k < 24.
                  dp_timestamp (slots ! k) = start + hours (int k)
                  \<and> dp_count (slots ! k)
                      = length (station_interval_data (JStr sid) (start + hours (int k)))
                  \<and> (station_interval_data (JStr sid) (start + hours (int k)) = []
                     \<longrightarrow> dp_count (slots ! k) = 0
                         \<and> dp_y (slots ! k) = JInt 0
                         \<and> (S = WaterLevelService \<longrightarrow> dp_category (slots ! k) = ''normal'')
                         \<and> (S = PrecipitationService \<longrightarrow> dp_category (slots ! k) = ''none'')))"
      by blast
  qed
  with run show ?thesis unfolding start_def by blast
qed

text \<open>
  The three steps return on plain readings, the empty list among them, unless the display
  date is on the last day of the calendar.
\<close>

lemma aggregation_steps_return:
  assumes "\<forall>r \<in> set weather_data. plain_reading S r"
    and "\<And>d. display_date_of L now weather_data target_date = Inr d \<Longrightarrow>
           DATETIME_MIN \<le> at_hour d START_HOUR \<and> at_hour d START_HOUR + hours 24 \<le> DATETIME_MAX"
  shows "\<exists>d intervals g.
           display_date_of L now weather_data target_date = Inr d
           \<and> create_hourly_intervals (at_hour d START_HOUR) (at_hour d END_HOUR) = Inr intervals
           \<and> group_readings_by_station_and_interval S sf L weather_data intervals
                 (at_hour d START_HOUR) (at_hour d END_HOUR) = Inr g"
proof -
  obtain d where d: "display_date_of L now weather_data target_date = Inr d"
    using display_date_total [OF assms(1)] by blast
  from assms(2) [OF d] have
    "create_hourly_intervals (at_hour d START_HOUR) (at_hour d START_HOUR + hours 23)
       = Inr (map (\<lambda>k. at_hour d START_HOUR + hours (int k)) [0..<24])"
    by (intro day_intervals_return) simp_all
  then have c: "create_hourly_intervals (at_hour d START_HOUR) (at_hour d END_HOUR)
       = Inr (map (\<lambda>k. at_hour d START_HOUR + hours (int k)) [0..<24])"
    by (simp only: at_hour_end)
  obtain g where "group_readings_by_station_and_interval S sf L weather_data
        (map (\<lambda>k. at_hour d START_HOUR + hours (int k)) [0..<24])
        (at_hour d START_HOUR) (at_hour d END_HOUR) = Inr g"
    unfolding group_readings_by_station_and_interval_def
    using group_loop_total [OF assms(1)] by blast
  with d c show ?thesis by blast
qed

lemma day_slots_created_0:
  "create_hourly_intervals 0 (hours 23) = Inr day_slots"
  using day_slots_created by simp

lemma noon_grouped:
  "group_readings_by_station_and_interval WaterLevelService sf_demo dtlib_demo [noon_reading]
     day_slots 0 (hours 23)
   = Inr ((\<lambda>station_id interval_time. [])
            (JStr ''St1'' := (\<lambda>interval_time. [])(hours 12 := [Fin 2])))"
proof -
  have f: "find_interval day_slots (hours 12) = Some (hours 12)"
    using find_interval_slot [of 12 24 0 0] by (simp add: day_slots_def hours_def seconds_def)
  have r: "in_time_range 0 (hours 23) (hours 12)"
    by (simp add: in_time_range_def hours_def seconds_def)
  show ?thesis
    by (simp add: group_readings_by_station_and_interval_def group_step_def group_body_def
          ebind_def noon_reading_def timestamp_field_def py_get_def py_get_default_def
          parse_timestamp_def dtlib_demo_def WaterLevelService_def py_float_def
          MIN_VALID_WATER_LEVEL_def MAX_VALID_WATER_LEVEL_def f r)
qed

theorem aggregation_returns_24_slots_witness:
  "display_date_of dtlib_demo 0 [noon_reading] None = Inr (hours 12)
   \<and> create_hourly_intervals (at_hour (hours 12) START_HOUR) (at_hour (hours 12) END_HOUR)
       = Inr day_slots
   \<and> length (slots_of (get_24hour_intervals_per_station WaterLevelService sf_demo dtlib_demo 0
                          [noon_reading] one_site None) ''St1'') = 24
   \<and> dp_count (slots_of (get_24hour_intervals_per_station WaterLevelService sf_demo dtlib_demo 0
                          [noon_reading] one_site None) ''St1'' ! 0) = 0
   \<and> dp_y (slots_of (get_24hour_intervals_per_station WaterLevelService sf_demo dtlib_demo 0
                          [noon_reading] one_site None) ''St1'' ! 0) = JInt 0
   \<and> dp_category (slots_of (get_24hour_intervals_per_station WaterLevelService sf_demo
                          dtlib_demo 0 [noon_reading] one_site None) ''St1'' ! 0) = ''normal''
   \<and> dp_count (slots_of (get_24hour_intervals_per_station WaterLevelService sf_demo dtlib_demo 0
                          [noon_reading] one_site None) ''St1'' ! 12) = 1"
proof -
  have d: "display_date_of dtlib_demo 0 [noon_reading] None = Inr (hours 12)"
    by (simp add: display_date_of_def noon_reading_def timestamp_field_def py_get_def
          py_get_default_def parse_timestamp_def dtlib_demo_def ebind_def)
  have s: "at_hour (hours 12) START_HOUR = 0" and e: "at_hour (hours 12) END_HOUR = hours 23"
    by (simp_all add: at_hour_def START_HOUR_def END_HOUR_def hours_def seconds_def)
  have c: "create_hourly_intervals (at_hour (hours 12) START_HOUR) (at_hour (hours 12) END_HOUR)
       = Inr day_slots"
    unfolding s e by (rule day_slots_created_0)
  have g: "group_readings_by_station_and_interval WaterLevelService sf_demo dtlib_demo
             [noon_reading] day_slots (at_hour (hours 12) START_HOUR)
             (at_hour (hours 12) END_HOUR)
           = Inr ((\<lambda>station_id interval_time. [])
                    (JStr ''St1'' := (\<lambda>interval_time. [])(hours 12 := [Fin 2])))"
    unfolding s e by (rule noon_grouped)
  have m: "''St1'' \<in> fst ` set one_site" by (simp add: one_site_def)
  from aggregation_returns_24_slots [OF disjI1 [OF refl] d c g, of one_site] m
  obtain res slots where
    r: "get_24hour_intervals_per_station WaterLevelService sf_demo dtlib_demo 0 [noon_reading]
          one_site None = Inr res"
       "map_of res ''St1'' = Some slots" "length slots = 24"
    and a: "\<forall>k < 24.
             dp_timestamp (slots ! k) = at_hour (hours 12) START_HOUR + hours (int k)
             \<and> dp_count (slots ! k)
                 = length (((\<lambda>station_id interval_time. [])
                    (JStr ''St1'' := (\<lambda>interval_time. [])(hours 12 := [Fin 2]))) (JStr ''St1'')
                             (at_hour (hours 12) START_HOUR + hours (int k)))
             \<and> (((\<lambda>station_id interval_time. [])
                    (JStr ''St1'' := (\<lambda>interval_time. [])(hours 12 := [Fin 2]))) (JStr ''St1'')
                   (at_hour (hours 12) START_HOUR + hours (int k)) = []
                \<longrightarrow> dp_count (slots ! k) = 0
                    \<and> dp_y (slots ! k) = JInt 0
                    \<and> (WaterLevelService = WaterLevelService
                         \<longrightarrow> dp_category (slots ! k) = ''normal'')
                    \<and> (WaterLevelService = PrecipitationService
                         \<longrightarrow> dp_category (slots ! k) = ''none''))"
    by blast
  have so: "slots_of (get_24hour_intervals_per_station WaterLevelService sf_demo dtlib_demo 0
              [noon_reading] one_site None) ''St1'' = slots"
    by (simp add: slots_of_def r)
  from a [rule_format, of 0, unfolded s]
  have z: "dp_count (slots ! 0) = 0" "dp_y (slots ! 0) = JInt 0"
      "dp_category (slots ! 0) = ''normal''"
    by (simp_all add: hours_def seconds_def)
  from a [rule_format, of 12, unfolded s] have n: "dp_count (slots ! 12) = 1"
    by (simp add: hours_def seconds_def)
  from d c r(3) z n show ?thesis unfolding so by simp
qed

lemma format_no_readings:
  "\<exists>ps. format_interval_data_with_labels PrecipitationService sf intervals (\<lambda>i. []) display_date
           = Inr ps
        \<and> map dp_category ps = replicate (length intervals) ''none''
        \<and> map dp_count ps = replicate (length intervals) 0"
proof (induction intervals)
  case Nil
  show ?case by simp
next
  case (Cons i intervals)
  have "classify PrecipitationService sf (JInt 0) = Inr ''none''"
    by (rule classify_avg(3)) simp_all
  then obtain p where p: "format_point PrecipitationService sf (\<lambda>i. []) display_date i = Inr p"
      "dp_category p = ''none''" "dp_count p = 0"
    by (simp add: format_point_def average_cases(1) ebind_def)
  from Cons.IH obtain ps where
    "format_interval_data_with_labels PrecipitationService sf intervals (\<lambda>i. []) display_date
       = Inr ps"
    "map dp_category ps = replicate (length intervals) ''none''"
    "map dp_count ps = replicate (length intervals) 0"
    by blast
  with p show ?case by (simp add: ebind_def)
qed

text \<open>
  C6 fails as stated: without any reading the 24 precipitation slots have count 0 and the
  intensity \<open>none\<close>, the category of a measured value below the lightest threshold, while
  the category the classifier gives to absent data is \<open>no_data\<close>.
\<close>

theorem aggregation_counterexample:
  "map dp_count (slots_of (get_24hour_intervals_per_station PrecipitationService sf_demo
          dtlib_demo 0 [] one_site None) ''St1'') = replicate 24 0
   \<and> map dp_category (slots_of (get_24hour_intervals_per_station PrecipitationService sf_demo
          dtlib_demo 0 [] one_site None) ''St1'') = replicate 24 ''none''
   \<and> get_rainfall_level sf_demo JNone = Inr ''no_data''"
proof -
  have len: "length day_slots = 24" by (simp add: day_slots_def)
  obtain ps where
    ps: "format_interval_data_with_labels PrecipitationService sf_demo day_slots (\<lambda>i. []) 0 = Inr ps"
        "map dp_category ps = replicate (length day_slots) ''none''"
        "map dp_count ps = replicate (length day_slots) 0"
    using format_no_readings by blast
  have s: "at_hour 0 START_HOUR = 0" and e: "at_hour 0 END_HOUR = hours 23"
    by (simp_all add: at_hour_def START_HOUR_def END_HOUR_def hours_def seconds_def)
  have run: "get_24hour_intervals_per_station PrecipitationService sf_demo dtlib_demo 0 []
               one_site None = Inr [(''St1'', ps)]"
    by (simp add: get_24hour_intervals_per_station_def display_date_of_def s e
          day_slots_created_0 group_readings_by_station_and_interval_def one_site_def ps(1)
          ebind_def Let_def)
  have a: "map dp_count (slots_of (get_24hour_intervals_per_station PrecipitationService sf_demo
          dtlib_demo 0 [] one_site None) ''St1'') = replicate 24 0"
    and b: "map dp_category (slots_of (get_24hour_intervals_per_station PrecipitationService
          sf_demo dtlib_demo 0 [] one_site None) ''St1'') = replicate 24 ''none''"
    by (simp_all add: run slots_of_def ps(2,3) len)
  have c: "get_rainfall_level sf_demo JNone = Inr ''no_data''"
    by (simp add: get_rainfall_level_def to_float_def ebind_def)
  from a b c show ?thesis by simp
qed

text \<open>
  Two inputs on which a step raises: a reading whose \<open>DateTime\<close> is a number, for which
  \<open>strptime\<close> raises \<open>TypeError\<close>, and a display date on 9999-12-31, for which the hour
  after the last slot is beyond the calendar.
\<close>

lemma epoch_timestamp_raises:
  "get_24hour_intervals_per_station WaterLevelService sf_demo dtlib_demo 0 [epoch_reading]
     one_site None = Inl TypeError"
  by (simp add: get_24hour_intervals_per_station_def display_date_of_def epoch_reading_def
        timestamp_field_def parse_timestamp_def py_get_def py_get_default_def ebind_def)

lemma last_day_raises:
  "get_24hour_intervals_per_station S sf L now [] sites (Some DATETIME_MAX) = Inl OverflowError"
proof -
  have s: "at_hour DATETIME_MAX START_HOUR = DATETIME_MAX + 1 - hours 24"
    by (simp add: at_hour_def START_HOUR_def DATETIME_MAX_def hours_def seconds_def)
  have "DATETIME_MAX < (DATETIME_MAX + 1 - hours 24) + hours 24" by simp
  from last_day_overflow [OF this] show ?thesis
    by (simp add: get_24hour_intervals_per_station_def display_date_of_def at_hour_end s
          ebind_def Let_def)
qed


section \<open>Sanitizing readings\<close>

text \<open>
  One round of the loop on a dict: a field that is absent or \<open>None\<close> is left alone, a value
  that coerces is replaced by its float, and one that does not becomes \<open>None\<close> in a critical
  field and \<open>0.0\<close> in another, unless the failure is \<open>OverflowError\<close>.  Without such a
  value \<open>_sanitize_reading\<close> returns a dict.
\<close>

lemma sanitize_field_dict:
  "sanitize_field sf (JDict d) field =
     (case map_of d field of
        None \<Rightarrow> Inr (JDict d)
      | Some v \<Rightarrow>
          if v = JNone then Inr (JDict d)
          else (case py_float sf v of
                  Inr x \<Rightarrow> Inr (JDict (AList.update field (JFloat x) d))
                | Inl e \<Rightarrow>
                    if e = OverflowError then Inl OverflowError
                    else Inr (JDict (AList.update field
                           (if field \<in> set critical_fields then JNone else JFloat (Fin 0)) d))))"
proof (cases "map_of d field")
  case None
  then show ?thesis
    by (simp add: sanitize_field_def py_contains_def ebind_def)
next
  case (Some v)
  show ?thesis
  proof (cases "py_float sf v")
    case (Inl e)
    with py_float_cases [OF Inl] show ?thesis
      by (auto simp: sanitize_field_def py_contains_def py_getitem_def py_setitem_def
            ebind_def Some)
  next
    case (Inr x)
    then show ?thesis
      by (simp add: sanitize_field_def py_contains_def py_getitem_def py_setitem_def
            ebind_def Some)
  qed
qed

lemma sanitize_field_keeps_others:
  "sanitize_field sf (JDict d) field = Inr (JDict d') \<Longrightarrow> g \<noteq> field \<Longrightarrow> map_of d' g = map_of d g"
  by (auto simp: sanitize_field_dict update_conv' split: option.splits if_splits sum.splits)

lemma sanitize_field_total:
  assumes "no_overflow sf d [field]"
  shows "\<exists>d'. sanitize_field sf (JDict d) field = Inr (JDict d')"
  using assms
  by (auto simp: sanitize_field_dict no_overflow_def split: option.splits sum.splits)

lemma sanitize_fields_total:
  "distinct flds \<Longrightarrow> no_overflow sf d flds \<Longrightarrow>
   \<exists>d'. sanitize_fields sf (JDict d) flds = Inr (JDict d')"
proof (induction flds arbitrary: d)
  case Nil
  show ?case by simp
next
  case (Cons f fs)
  from Cons.prems(2) have "no_overflow sf d [f]" by (simp add: no_overflow_def)
  then obtain d1 where d1: "sanitize_field sf (JDict d) f = Inr (JDict d1)"
    using sanitize_field_total by blast
  have "no_overflow sf d1 fs"
    unfolding no_overflow_def
  proof (intro ballI allI impI)
    fix g v assume g: "g \<in> set fs" and v: "map_of d1 g = Some v"
    from g Cons.prems(1) have "g \<noteq> f" by auto
    from sanitize_field_keeps_others [OF d1 this] v have "map_of d g = Some v" by simp
    with g Cons.prems(2) show "py_float sf v \<noteq> Inl OverflowError"
      by (simp add: no_overflow_def)
  qed
  with Cons.IH [of d1] Cons.prems(1) show ?case
    by (simp add: d1 ebind_def)
qed

lemma sanitize_reading_total:
  assumes "no_overflow sf d float_fields"
  shows "\<exists>d'. sanitize_reading sf ssu (JDict d) = Inr (JDict d')"
proof -
  have "distinct float_fields" by (simp add: float_fields_def)
  from sanitize_fields_total [OF this assms] obtain d1 where
    "sanitize_fields sf (JDict d) float_fields = Inr (JDict d1)" by blast
  then show ?thesis
    by (cases "map_of d1 ''WindDirection''")
       (auto simp: sanitize_reading_def ebind_def py_contains_def py_getitem_def py_setitem_def)
qed


text \<open>
  C9 at a reading whose \<open>WaterLevel\<close> is the integer \<open>10^400\<close>: \<open>float\<close> raises
  \<open>OverflowError\<close>, which the handler for \<open>ValueError\<close> and \<open>TypeError\<close> lets through, and
  the exception leaves \<open>_sanitize_reading\<close>.
\<close>

theorem sanitize_reading_overflow:
  "sanitize_reading sf ssu
     (JDict [(''StationID'', JStr ''St1''), (''WaterLevel'', JInt (10 ^ 400))])
   = Inl OverflowError"
  by (simp add: sanitize_reading_def float_fields_def sanitize_field_def ebind_def
        py_contains_def py_getitem_def py_float_def)


end
